theory Spec2Isabelle
  imports Complex_Main "HOL-Library.Word" "HOL-Library.Signed_Division"
begin

unbundle bit_operations_syntax

section \<open>The C wrapper around the speech-recognition engine\<close>

text \<open>
  A shallow embedding of \<^verbatim>\<open>whisper_wrapper.c\<close>. Conventions:
  \<^item> a pointer that may be \<^verbatim>\<open>NULL\<close> is an \<open>option\<close>; a C string is the \<open>string\<close> of
    its characters before the terminating NUL;
  \<^item> \<^verbatim>\<open>int\<close> and \<^verbatim>\<open>short\<close> values read from the header are 32- and 16-bit words read
    as two's complement; C's \<^verbatim>\<open>/\<close> on \<^verbatim>\<open>int\<close> is \<open>sdiv\<close> (it truncates);
  \<^item> a finite \<^verbatim>\<open>float\<close> is the real number it stands for, and an operation on floats
    is the exact operation followed by the environment's rounding \<open>float_round\<close>; no
    operation of the 8-, 16- and 24-bit branches leaves the range of \<^verbatim>\<open>float\<close>;
  \<^item> every call that opens, reads or closes the file, allocates or releases memory, or
    runs the engine is recorded, in program order, as an \<open>event\<close>; the diagnostics
    printed on \<^verbatim>\<open>stderr\<close> are left out;
  \<^item> \<^verbatim>\<open>malloc\<close> and \<^verbatim>\<open>realloc\<close>, whose results the source tests, may fail;
    \<^verbatim>\<open>strdup\<close> of one of the program's short literals, whose result the source uses
    untested, is taken to succeed;
  \<^item> writing past the end of the result buffer, and an \<^verbatim>\<open>int\<close> beyond its range while
    the result is put together, are undefined behaviour in C and are the outcome
    \<open>Undefined_behaviour\<close> here.
\<close>

subsection \<open>Data\<close>

type_synonym byte = "8 word"

text \<open>\<^verbatim>\<open>struct whisper_wrapper\<close>: the engine context and the result buffer the handle owns.\<close>

record 'c whisper_wrapper =
  ctx :: "'c option"
  result_buffer :: "string option"

text \<open>What a block of heap memory is used for; it names the block in an event.\<close>

datatype mem = Wrapper_struct | Result_buffer | Pcm | Wav_data

datatype event =
    Fopen string bool
  | Fread nat bool
  | Fclose
  | Malloc mem int bool
  | Realloc mem int bool
  | Strdup string
  | Free mem
  | Whisper_free
  | Whisper_full int
  | Whisper_full_n_segments
  | Whisper_full_get_segment_text int

text \<open>
  A \<^verbatim>\<open>float *\<close>: null, pointing to released memory, pointing to memory that was
  allocated and not written yet, or pointing to samples.
\<close>

datatype float_ptr = Null | Dangling | Uninitialised | Floats "real list"

text \<open>
  The part of the environment a call depends on: the file system, whether a request
  for memory is granted (asked per purpose and size; within one call no purpose is
  asked for the same size twice), how four bytes are read as a \<^verbatim>\<open>float\<close>, and how
  a real number is rounded to a \<^verbatim>\<open>float\<close>.
\<close>

record env =
  files :: "string \<Rightarrow> byte list option"
  alloc_ok :: "mem \<Rightarrow> int \<Rightarrow> bool"
  float_of_bytes :: "byte \<Rightarrow> byte \<Rightarrow> byte \<Rightarrow> byte \<Rightarrow> real"
  float_round :: "real \<Rightarrow> real"

text \<open>
  \<^verbatim>\<open>struct whisper_full_params\<close> is declared by the engine; these are the fields
  the wrapper assigns. The record's extension stands for the others.
\<close>

record whisper_full_params =
  print_realtime :: bool
  print_progress :: bool
  print_timestamps :: bool
  print_special :: bool
  translate :: bool
  language :: string
  n_threads :: int
  offset_ms :: int
  max_len :: int
  max_tokens :: int
  duration_ms :: int
  split_on_word :: bool
  no_context :: bool
  single_segment :: bool

text \<open>
  The engine operations the wrapper calls, over contexts of type \<open>'c\<close>.
  \<open>whisper_full\<close> returns its status and the context it leaves behind.
\<close>

record ('c, 'z) engine =
  whisper_full_default_params :: "'z whisper_full_params_scheme"
  whisper_full :: "'c \<Rightarrow> 'z whisper_full_params_scheme \<Rightarrow> float_ptr \<Rightarrow> int \<Rightarrow> int \<times> 'c"
  whisper_full_n_segments :: "'c \<Rightarrow> int"
  whisper_full_get_segment_text :: "'c \<Rightarrow> int \<Rightarrow> string"

text \<open>
  The \<^verbatim>\<open>const char *\<close> a transcription returns: a string literal of the program, or the
  handle's own result buffer (shown with its contents).
\<close>

datatype cstr = Literal string | Owned string

datatype 'c outcome =
    Undefined_behaviour
  | Returns cstr "'c whisper_wrapper option" "event list"

subsection \<open>Lifecycle\<close>

definition whisper_wrapper_free :: "'c whisper_wrapper option \<Rightarrow> event list" where
  "whisper_wrapper_free wrapper =
     (case wrapper of
        None \<Rightarrow> []
      | Some w \<Rightarrow>
          (case ctx w of None \<Rightarrow> [] | Some c \<Rightarrow> [Whisper_free])
          @ (case result_buffer w of None \<Rightarrow> [] | Some b \<Rightarrow> [Free Result_buffer])
          @ [Free Wrapper_struct])"

definition whisper_wrapper_is_loaded :: "'c whisper_wrapper option \<Rightarrow> bool" where
  "whisper_wrapper_is_loaded wrapper =
     (case wrapper of
        None \<Rightarrow> False
      | Some w \<Rightarrow> (case ctx w of None \<Rightarrow> False | Some c \<Rightarrow> True))"

subsection \<open>The WAV decoder\<close>

text \<open>Header fields, in the byte order of the platforms the program runs on (little-endian).\<close>

definition short_at :: "byte list \<Rightarrow> nat \<Rightarrow> int" where
  "short_at bs k = sint (ucast (bs ! k) OR push_bit 8 (ucast (bs ! (k + 1))) :: 16 word)"

definition int_at :: "byte list \<Rightarrow> nat \<Rightarrow> int" where
  "int_at bs k =
     sint (ucast (bs ! k) OR push_bit 8 (ucast (bs ! (k + 1)))
           OR push_bit 16 (ucast (bs ! (k + 2))) OR push_bit 24 (ucast (bs ! (k + 3))) :: 32 word)"

definition float_at :: "env \<Rightarrow> byte list \<Rightarrow> nat \<Rightarrow> real" where
  "float_at e bs k = float_of_bytes e (bs ! k) (bs ! (k + 1)) (bs ! (k + 2)) (bs ! (k + 3))"

text \<open>
  The 24-bit branch's \<^verbatim>\<open>(b0 << 8) | (b1 << 16) | (b2 << 24)\<close>, an \<^verbatim>\<open>int\<close>. The
  shift of a byte of 128 or more into the sign bit is read as two's complement: the
  32 bits of the result are the bits shifted.
\<close>

definition sample24 :: "byte \<Rightarrow> byte \<Rightarrow> byte \<Rightarrow> int" where
  "sample24 b0 b1 b2 =
     sint (push_bit 8 (ucast b0) OR push_bit 16 (ucast b1) OR push_bit 24 (ucast b2) :: 32 word)"

text \<open>
  The usual reading of a packed 24-bit little-endian sample, bytes at bits 0, 8 and 16
  of a signed 24-bit integer: what the specification compares \<open>sample24\<close> with.
\<close>

definition unpack24 :: "byte \<Rightarrow> byte \<Rightarrow> byte \<Rightarrow> int" where
  "unpack24 b0 b1 b2 =
     sint (ucast b0 OR push_bit 8 (ucast b1) OR push_bit 16 (ucast b2) :: 24 word)"

text \<open>
  Float arithmetic: the conversion of an \<^verbatim>\<open>int\<close>, and the sum, difference and quotient
  of two floats.
\<close>

definition f_of_int :: "env \<Rightarrow> int \<Rightarrow> real" where
  "f_of_int e n = float_round e (real_of_int n)"

definition f_add :: "env \<Rightarrow> real \<Rightarrow> real \<Rightarrow> real" where
  "f_add e x y = float_round e (x + y)"

definition f_sub :: "env \<Rightarrow> real \<Rightarrow> real \<Rightarrow> real" where
  "f_sub e x y = float_round e (x - y)"

definition f_div :: "env \<Rightarrow> real \<Rightarrow> real \<Rightarrow> real" where
  "f_div e x y = float_round e (x / y)"

text \<open>
  One channel's normalised value, per bit depth; \<open>k\<close> is the sample's index in the data.
  The constants \<^verbatim>\<open>32768.0f\<close>, \<^verbatim>\<open>128.0f\<close> and \<^verbatim>\<open>2147483648.0f\<close> are powers of two and
  so are floats as they stand.
\<close>

definition channel16 :: "env \<Rightarrow> byte list \<Rightarrow> nat \<Rightarrow> real" where
  "channel16 e buf k = f_div e (f_of_int e (short_at buf (2 * k))) 32768"

definition channel32 :: "env \<Rightarrow> byte list \<Rightarrow> nat \<Rightarrow> real" where
  "channel32 e buf k = float_at e buf (4 * k)"

definition channel8 :: "env \<Rightarrow> byte list \<Rightarrow> nat \<Rightarrow> real" where
  "channel8 e buf k = f_div e (f_sub e (f_of_int e (uint (buf ! k))) 128) 128"

definition channel24 :: "env \<Rightarrow> byte list \<Rightarrow> nat \<Rightarrow> real" where
  "channel24 e buf k =
     f_div e (f_of_int e (sample24 (buf ! (3 * k)) (buf ! (3 * k + 1)) (buf ! (3 * k + 2))))
       2147483648"

text \<open>
  The two nested loops every branch runs: for each frame \<open>i\<close>, add up the channels
  \<open>j = 0, ..., num_channels - 1\<close> starting from 0 and divide by \<open>num_channels\<close>.
\<close>

definition average_channels :: "env \<Rightarrow> (nat \<Rightarrow> real) \<Rightarrow> int \<Rightarrow> int \<Rightarrow> real list" where
  "average_channels e channel samples num_channels =
     map (\<lambda>i. f_div e
                (foldl (\<lambda>sum j. f_add e sum (channel (i * nat num_channels + j))) 0
                   [0..<nat num_channels])
                (f_of_int e num_channels))
         [0..<nat samples]"

text \<open>The caller's variables that \<^verbatim>\<open>read_wav_file\<close> writes through its pointer arguments.\<close>

record wav_vars =
  pcm :: float_ptr
  samples :: int
  sample_rate :: int

text \<open>
  The body of each bit-depth branch: allocate \<open>data_size\<close> bytes, read the data into
  them, convert, release them. The four branches differ in the conversion \<open>channel\<close> only.
  \<open>bytes\<close> is the file, of which the header has been read.
\<close>

definition read_samples ::
  "env \<Rightarrow> byte list \<Rightarrow> int \<Rightarrow> int \<Rightarrow> (byte list \<Rightarrow> nat \<Rightarrow> real) \<Rightarrow> wav_vars \<Rightarrow> event list
   \<Rightarrow> bool \<times> wav_vars \<times> event list" where
  "read_samples e bytes data_size num_channels channel v ev =
     (if \<not> alloc_ok e Wav_data data_size then
        (False, v\<lparr>pcm := Dangling\<rparr>, ev @ [Malloc Wav_data data_size False, Free Pcm, Fclose])
      else
        let ev = ev @ [Malloc Wav_data data_size True];
            buf = take (nat data_size) (drop 44 bytes)
        in
        if int (length buf) \<noteq> data_size then
          (False, v\<lparr>pcm := Dangling\<rparr>,
           ev @ [Fread (nat data_size) False, Free Wav_data, Free Pcm, Fclose])
        else
          (True, v\<lparr>pcm := Floats (average_channels e (channel buf) (samples v) num_channels)\<rparr>,
           ev @ [Fread (nat data_size) True, Free Wav_data, Fclose]))"

definition read_wav_file :: "env \<Rightarrow> string \<Rightarrow> wav_vars \<Rightarrow> bool \<times> wav_vars \<times> event list" where
  "read_wav_file e filename v =
    (case files e filename of
       None \<Rightarrow> (False, v, [Fopen filename False])
     | Some bytes \<Rightarrow>
        let header = take 44 bytes in
        if length header \<noteq> 44 then
          (False, v, [Fopen filename True, Fread 44 False, Fclose])
        else
        let ev = [Fopen filename True, Fread 44 True] in
        if take 4 header \<noteq> map (of_nat \<circ> of_char) ''RIFF''
           \<or> take 4 (drop 8 header) \<noteq> map (of_nat \<circ> of_char) ''WAVE'' then
          (False, v, ev @ [Fclose])
        else
        let v = v\<lparr>sample_rate := int_at header 24\<rparr>;
            num_channels = short_at header 22;
            bits_per_sample = short_at header 34;
            data_size = int_at header 40
        in
        if data_size \<le> 0 then (False, v, ev @ [Fclose])
        else if num_channels \<le> 0 then (False, v, ev @ [Fclose])
        else if bits_per_sample \<noteq> 16 \<and> bits_per_sample \<noteq> 32
                \<and> bits_per_sample \<noteq> 8 \<and> bits_per_sample \<noteq> 24 then
          (False, v, ev @ [Fclose])
        else
        let v = v\<lparr>samples := data_size sdiv (bits_per_sample sdiv 8) sdiv num_channels\<rparr> in
        if samples v \<le> 0 then (False, v, ev @ [Fclose])
        else if \<not> alloc_ok e Pcm (samples v * 4) then
          (False, v\<lparr>pcm := Null\<rparr>, ev @ [Malloc Pcm (samples v * 4) False, Fclose])
        else
        let v = v\<lparr>pcm := Uninitialised\<rparr>;
            ev = ev @ [Malloc Pcm (samples v * 4) True]
        in
        if bits_per_sample = 16 then
          read_samples e bytes data_size num_channels (channel16 e) v ev
        else if bits_per_sample = 32 then
          read_samples e bytes data_size num_channels (channel32 e) v ev
        else if bits_per_sample = 8 then
          read_samples e bytes data_size num_channels (channel8 e) v ev
        else if bits_per_sample = 24 then
          read_samples e bytes data_size num_channels (channel24 e) v ev
        else (True, v, ev @ [Fclose]))"

subsection \<open>Transcription\<close>

definition setup_params ::
  "'z whisper_full_params_scheme \<Rightarrow> bool \<Rightarrow> 'z whisper_full_params_scheme" where
  "setup_params params use_language_detection =
     params\<lparr>print_realtime := False,
            print_progress := False,
            print_timestamps := False,
            print_special := False,
            translate := False,
            language := (if use_language_detection then ''auto'' else ''en''),
            n_threads := 4,
            offset_ms := 0,
            max_len := 0,
            max_tokens := 0,
            duration_ms := 0,
            split_on_word := True\<rparr>"

text \<open>
  \<^verbatim>\<open>strcat(dest, src)\<close> into a buffer of \<open>capacity\<close> bytes: the result and its NUL must
  fit, otherwise the call writes outside the buffer (\<open>None\<close>).
\<close>

definition strcat :: "int \<Rightarrow> string \<Rightarrow> string \<Rightarrow> string option" where
  "strcat capacity dest src =
     (if int (length dest) + int (length src) + 1 \<le> capacity then Some (dest @ src) else None)"

text \<open>The largest \<^verbatim>\<open>int\<close>.\<close>

definition INT_MAX :: int where
  "INT_MAX = 2147483647"

text \<open>
  One pass through the body of the loop over the segments. \<open>buf\<close> is the text in the
  handle's result buffer, whose capacity is \<open>buffer_size\<close>. The pass either leaves the
  function (\<open>Inl\<close>) or hands the next pass the new \<open>buffer_size\<close>, text and events.
  The lengths, their sum and the doubled size are \<^verbatim>\<open>int\<close>s: where one would exceed
  \<open>INT_MAX\<close> the program's behaviour is not defined.
\<close>

definition append_segment ::
  "('c, 'z) engine \<Rightarrow> env \<Rightarrow> 'c whisper_wrapper \<Rightarrow> 'c \<Rightarrow> int \<Rightarrow> int \<Rightarrow> int \<Rightarrow> string \<Rightarrow> event list
   \<Rightarrow> 'c outcome + int \<times> string \<times> event list" where
  "append_segment E e w c n_segments i buffer_size buf tr =
     (let segment_text = whisper_full_get_segment_text E c i;
          tr = tr @ [Whisper_full_get_segment_text i];
          current_length = int (length buf);
          segment_length = int (length segment_text)
      in
      if current_length + segment_length + 2 > INT_MAX then Inl Undefined_behaviour
      else if current_length + segment_length + 2 > buffer_size \<and> buffer_size * 2 > INT_MAX
      then Inl Undefined_behaviour
      else
      let grown =
            (if current_length + segment_length + 2 > buffer_size then
               (if alloc_ok e Result_buffer (buffer_size * 2)
                then Some (buffer_size * 2, tr @ [Realloc Result_buffer (buffer_size * 2) True])
                else None)
             else Some (buffer_size, tr))
      in
      case grown of
        None \<Rightarrow>
          Inl (Returns (Owned ''Error: Failed to allocate memory for transcription'')
                 (Some (w\<lparr>result_buffer :=
                            Some ''Error: Failed to allocate memory for transcription''\<rparr>))
                 (tr @ [Realloc Result_buffer (buffer_size * 2) False, Free Result_buffer,
                        Strdup ''Error: Failed to allocate memory for transcription'']))
      | Some (buffer_size, tr) \<Rightarrow>
          (case strcat buffer_size buf segment_text of
             None \<Rightarrow> Inl Undefined_behaviour
           | Some buf \<Rightarrow>
               if i < n_segments - 1 then
                 (case strcat buffer_size buf '' '' of
                    None \<Rightarrow> Inl Undefined_behaviour
                  | Some buf \<Rightarrow> Inr (buffer_size, buf, tr))
               else Inr (buffer_size, buf, tr)))"

function concat_segments ::
  "('c, 'z) engine \<Rightarrow> env \<Rightarrow> 'c whisper_wrapper \<Rightarrow> 'c \<Rightarrow> int \<Rightarrow> int \<Rightarrow> int \<Rightarrow> string \<Rightarrow> event list
   \<Rightarrow> 'c outcome" where
  "concat_segments E e w c n_segments i buffer_size buf tr =
     (if i < n_segments then
        (case append_segment E e w c n_segments i buffer_size buf tr of
           Inl out \<Rightarrow> out
         | Inr (buffer_size, buf, tr) \<Rightarrow>
             concat_segments E e w c n_segments (i + 1) buffer_size buf tr)
      else Returns (Owned buf) (Some (w\<lparr>result_buffer := Some buf\<rparr>)) tr)"
  by pat_completeness auto
termination
  by (relation "measure (\<lambda>(E, e, w, c, n_segments, i, buffer_size, buf, tr). nat (n_segments - i))")
     auto

declare concat_segments.simps [simp del]

text \<open>
  From \<^verbatim>\<open>// Get the transcription result\<close> to the end: the same lines in both
  transcription functions. On entry the handle's result buffer is null.
\<close>

definition collect_segments ::
  "('c, 'z) engine \<Rightarrow> env \<Rightarrow> 'c whisper_wrapper \<Rightarrow> 'c \<Rightarrow> event list \<Rightarrow> 'c outcome" where
  "collect_segments E e w c tr =
     (let n_segments = whisper_full_n_segments E c;
          tr = tr @ [Whisper_full_n_segments]
      in
      if n_segments \<le> 0 then
        Returns (Owned ''No speech detected'')
          (Some (w\<lparr>result_buffer := Some ''No speech detected''\<rparr>))
          (tr @ [Strdup ''No speech detected''])
      else
        let buffer_size = 1024 * 16 in
        if \<not> alloc_ok e Result_buffer buffer_size then
          Returns (Literal ''Error: Failed to allocate memory for transcription'')
            (Some (w\<lparr>result_buffer := None\<rparr>))
            (tr @ [Malloc Result_buffer buffer_size False])
        else
          concat_segments E e w c n_segments 0 buffer_size []
            (tr @ [Malloc Result_buffer buffer_size True]))"

definition whisper_wrapper_transcribe_with_lang ::
  "('c, 'z) engine \<Rightarrow> env \<Rightarrow> 'c whisper_wrapper option \<Rightarrow> string option \<Rightarrow> bool \<Rightarrow> 'c outcome" where
  "whisper_wrapper_transcribe_with_lang E e wrapper audio_path use_language_detection =
     (case wrapper of
        None \<Rightarrow> Returns (Literal ''Error: Invalid parameters'') wrapper []
      | Some w \<Rightarrow>
     (case ctx w of
        None \<Rightarrow> Returns (Literal ''Error: Invalid parameters'') wrapper []
      | Some c \<Rightarrow>
     (case audio_path of
        None \<Rightarrow> Returns (Literal ''Error: Invalid parameters'') wrapper []
      | Some path \<Rightarrow>
        let tr = (case result_buffer w of None \<Rightarrow> [] | Some b \<Rightarrow> [Free Result_buffer]);
            w = w\<lparr>result_buffer := None\<rparr>;
            (ok, v, ev) = read_wav_file e path \<lparr>pcm = Null, samples = 0, sample_rate = 0\<rparr>;
            tr = tr @ ev
        in
        if \<not> ok then
          Returns (Owned ''Error: Failed to load audio file'')
            (Some (w\<lparr>result_buffer := Some ''Error: Failed to load audio file''\<rparr>))
            (tr @ [Strdup ''Error: Failed to load audio file''])
        else
        let params = setup_params (whisper_full_default_params E) use_language_detection;
            (status, c) = whisper_full E c params (pcm v) (samples v);
            w = w\<lparr>ctx := Some c\<rparr>;
            tr = tr @ [Whisper_full (samples v)]
        in
        if status \<noteq> 0 then
          Returns (Owned ''Error: Failed to process audio with whisper'')
            (Some (w\<lparr>result_buffer := Some ''Error: Failed to process audio with whisper''\<rparr>))
            (tr @ [Free Pcm, Strdup ''Error: Failed to process audio with whisper''])
        else collect_segments E e w c (tr @ [Free Pcm]))))"

definition whisper_wrapper_transcribe ::
  "('c, 'z) engine \<Rightarrow> env \<Rightarrow> 'c whisper_wrapper option \<Rightarrow> string option \<Rightarrow> 'c outcome" where
  "whisper_wrapper_transcribe E e wrapper audio_path =
     whisper_wrapper_transcribe_with_lang E e wrapper audio_path True"

definition whisper_wrapper_transcribe_pcm_with_lang ::
  "('c, 'z) engine \<Rightarrow> env \<Rightarrow> 'c whisper_wrapper option \<Rightarrow> float_ptr \<Rightarrow> int \<Rightarrow> bool \<Rightarrow> 'c outcome" where
  "whisper_wrapper_transcribe_pcm_with_lang E e wrapper pcm_data n_samples use_language_detection =
     (case wrapper of
        None \<Rightarrow> Returns (Literal ''Error: Invalid parameters'') wrapper []
      | Some w \<Rightarrow>
     (case ctx w of
        None \<Rightarrow> Returns (Literal ''Error: Invalid parameters'') wrapper []
      | Some c \<Rightarrow>
        if pcm_data = Null \<or> n_samples \<le> 0 then
          Returns (Literal ''Error: Invalid parameters'') wrapper []
        else
        let tr = (case result_buffer w of None \<Rightarrow> [] | Some b \<Rightarrow> [Free Result_buffer]);
            w = w\<lparr>result_buffer := None\<rparr>;
            params = (setup_params (whisper_full_default_params E) use_language_detection)
                       \<lparr>no_context := True, single_segment := True\<rparr>;
            (status, c) = whisper_full E c params pcm_data n_samples;
            w = w\<lparr>ctx := Some c\<rparr>;
            tr = tr @ [Whisper_full n_samples]
        in
        if status \<noteq> 0 then
          Returns (Owned ''Error: Failed to process audio with whisper'')
            (Some (w\<lparr>result_buffer := Some ''Error: Failed to process audio with whisper''\<rparr>))
            (tr @ [Strdup ''Error: Failed to process audio with whisper''])
        else collect_segments E e w c tr))"

definition whisper_wrapper_transcribe_pcm ::
  "('c, 'z) engine \<Rightarrow> env \<Rightarrow> 'c whisper_wrapper option \<Rightarrow> float_ptr \<Rightarrow> int \<Rightarrow> 'c outcome" where
  "whisper_wrapper_transcribe_pcm E e wrapper pcm_data n_samples =
     whisper_wrapper_transcribe_pcm_with_lang E e wrapper pcm_data n_samples True"

subsection \<open>Notions for stating the properties\<close>

text \<open>
  The result the specification describes: the texts of the segments \<open>i, ..., n - 1\<close>
  in order, with one space between consecutive texts and none at either end.
\<close>

fun join_with_spaces :: "string list \<Rightarrow> string" where
  "join_with_spaces [] = []"
| "join_with_spaces [s] = s"
| "join_with_spaces (s # t # ts) = s @ '' '' @ join_with_spaces (t # ts)"

definition segment_texts :: "('c, 'z) engine \<Rightarrow> 'c \<Rightarrow> int \<Rightarrow> int \<Rightarrow> string list" where
  "segment_texts E c i n = map (\<lambda>k. whisper_full_get_segment_text E c (int k)) [nat i..<nat n]"

text \<open>
  The mean of a list of floats as the decoder computes it: summed from the left,
  starting from 0, and divided by the converted count, all in float arithmetic.
\<close>

definition float_mean :: "env \<Rightarrow> real list \<Rightarrow> real" where
  "float_mean e xs = f_div e (foldl (f_add e) 0 xs) (f_of_int e (int (length xs)))"

text \<open>
  What the proofs use of rounding to binary32: it is monotone, and it leaves unchanged
  the numbers \<open>m / 2 ^ k\<close> and \<open>m * 2 ^ k\<close> with \<open>\<bar>m\<bar> \<le> 2 ^ 24\<close> that lie in the range of
  the format.
\<close>

definition faithful_rounding :: "(real \<Rightarrow> real) \<Rightarrow> bool" where
  "faithful_rounding rnd \<longleftrightarrow>
     (\<forall>x y. x \<le> y \<longrightarrow> rnd x \<le> rnd y)
     \<and> (\<forall>m k. \<bar>m\<bar> \<le> 2 ^ 24 \<and> k \<le> 149 \<longrightarrow>
            rnd (real_of_int m / 2 ^ k) = real_of_int m / 2 ^ k)
     \<and> (\<forall>m k. \<bar>m\<bar> \<le> 2 ^ 24 \<and> k \<le> 103 \<longrightarrow>
            rnd (real_of_int m * 2 ^ k) = real_of_int m * 2 ^ k)"

text \<open>An outcome with further events in front of its own.\<close>

fun prepend_events :: "event list \<Rightarrow> 'c outcome \<Rightarrow> 'c outcome" where
  "prepend_events tr0 Undefined_behaviour = Undefined_behaviour"
| "prepend_events tr0 (Returns r w tr) = Returns r w (tr0 @ tr)"

text \<open>Some request to enlarge the result buffer was refused.\<close>

definition realloc_failed :: "event list \<Rightarrow> bool" where
  "realloc_failed tr = (\<exists>size. Realloc Result_buffer size False \<in> set tr)"

text \<open>
  The loop over the segments, seen from its inputs. As long as no pass has left the
  function, the buffer holds before pass \<open>k\<close> the texts of the segments before \<open>k\<close>, each
  followed by a space (\<open>text_before\<close>); the test at the head of pass \<open>k\<close> compares
  \<^verbatim>\<open>current_length + segment_length + 2\<close> (\<open>needed\<close>) with \<^verbatim>\<open>buffer_size\<close>, whose value
  then is \<open>capacity\<close>: 16 KiB, doubled once in every earlier pass whose test succeeded.
\<close>

definition text_before :: "('c, 'z) engine \<Rightarrow> 'c \<Rightarrow> nat \<Rightarrow> string" where
  "text_before E c k =
     concat (map (\<lambda>j. whisper_full_get_segment_text E c (int j) @ '' '') [0..<k])"

definition needed :: "('c, 'z) engine \<Rightarrow> 'c \<Rightarrow> nat \<Rightarrow> int" where
  "needed E c k =
     int (length (text_before E c k)) + int (length (whisper_full_get_segment_text E c (int k))) + 2"

fun capacity :: "('c, 'z) engine \<Rightarrow> 'c \<Rightarrow> nat \<Rightarrow> int" where
  "capacity E c 0 = 1024 * 16"
| "capacity E c (Suc k) =
     (if needed E c k > capacity E c k then capacity E c k * 2 else capacity E c k)"

text \<open>
  Pass \<open>k\<close> is the first pass to leave the function, and it leaves because its request
  to enlarge the buffer is refused: the buffer has been allocated; in every earlier
  pass the segment and its space fitted, after the doubling where there was one, and
  that doubling was granted; pass \<open>k\<close> needs more than the capacity and neither the
  sum nor the doubled size overflows an \<^verbatim>\<open>int\<close>; the doubled size is refused.
\<close>

definition growth_refused :: "('c, 'z) engine \<Rightarrow> env \<Rightarrow> 'c \<Rightarrow> nat \<Rightarrow> bool" where
  "growth_refused E e c k \<longleftrightarrow>
     int k < whisper_full_n_segments E c
     \<and> alloc_ok e Result_buffer (1024 * 16)
     \<and> (\<forall>j\<in>{0..<k}. needed E c j \<le> capacity E c (Suc j)
           \<and> (capacity E c j < needed E c j \<longrightarrow> alloc_ok e Result_buffer (capacity E c j * 2)))
     \<and> capacity E c k < needed E c k
     \<and> needed E c k \<le> INT_MAX \<and> capacity E c k * 2 \<le> INT_MAX
     \<and> \<not> alloc_ok e Result_buffer (capacity E c k * 2)"

subsection \<open>Concrete inputs\<close>

text \<open>
  A synthetic engine: inference returns \<open>status\<close> and leaves \<open>segments\<close> as the
  context's segment texts.
\<close>

definition stub_params :: whisper_full_params where
  "stub_params =
     \<lparr>print_realtime = True, print_progress = True, print_timestamps = True,
      print_special = True, translate = True, language = ''de'', n_threads = 1,
      offset_ms = 5, max_len = 5, max_tokens = 5, duration_ms = 5,
      split_on_word = False, no_context = False, single_segment = False\<rparr>"

definition stub_engine :: "int \<Rightarrow> string list \<Rightarrow> (string list, unit) engine" where
  "stub_engine status segments =
     \<lparr>whisper_full_default_params = stub_params,
      whisper_full = (\<lambda>c params pcm_data n. (status, segments)),
      whisper_full_n_segments = (\<lambda>c. int (length c)),
      whisper_full_get_segment_text = (\<lambda>c i. c ! nat i)\<rparr>"

text \<open>
  An environment whose every path opens \<open>file\<close>, that grants a request for memory of
  up to \<open>limit\<close> bytes, and whose float arithmetic is exact.
\<close>

definition stub_env :: "byte list option \<Rightarrow> int \<Rightarrow> env" where
  "stub_env file limit =
     \<lparr>files = (\<lambda>filename. file),
      alloc_ok = (\<lambda>m n. n \<le> limit),
      float_of_bytes = (\<lambda>b0 b1 b2 b3. 0),
      float_round = (\<lambda>x. x)\<rparr>"

definition loaded_handle :: "string option \<Rightarrow> string list whisper_wrapper" where
  "loaded_handle old = \<lparr>ctx = Some [], result_buffer = old\<rparr>"

text \<open>
  A canonical 44-byte header at 16000 Hz with the given channel count, bits per
  sample and data size (each below 256).
\<close>

definition wav_header :: "byte \<Rightarrow> byte \<Rightarrow> byte \<Rightarrow> byte list" where
  "wav_header channels bits data_size =
     [82, 73, 70, 70, 0, 0, 0, 0, 87, 65, 86, 69, 102, 109, 116, 32,
      16, 0, 0, 0, 1, 0, channels, 0, 128, 62, 0, 0, 0, 0, 0, 0,
      0, 0, bits, 0, 100, 97, 116, 97, data_size, 0, 0, 0]"

text \<open>
  Two stereo 16-bit frames: (16384, -16384) and (32767, -32768).
\<close>

definition stereo16 :: "byte list" where
  "stereo16 = wav_header 2 16 8 @ [0, 64, 0, 192, 255, 127, 0, 128]"

text \<open>
  A stereo 24-bit file whose data size, 13, is not a multiple of the frame size: two
  frames and one byte more.
\<close>

definition stereo24 :: "byte list" where
  "stereo24 = wav_header 2 24 13 @ [1, 2, 128, 0, 0, 64, 0, 0, 0, 0, 0, 192, 7]"

section \<open>Lifecycle and argument checks\<close>

text \<open>
  C10: releasing a null handle calls nothing and so changes nothing, and a handle
  counts as loaded exactly when it is not null and its engine context is not null; a
  null handle is not loaded.
\<close>

theorem free_null_and_is_loaded:
  "whisper_wrapper_free (None :: 'c whisper_wrapper option) = []
   \<and> \<not> whisper_wrapper_is_loaded (None :: 'c whisper_wrapper option)
   \<and> (whisper_wrapper_is_loaded (wrapper :: 'c whisper_wrapper option)
        = (\<exists>w. wrapper = Some w \<and> ctx w \<noteq> None))"
  by (auto simp: whisper_wrapper_free_def whisper_wrapper_is_loaded_def split: option.splits)

text \<open>
  C9: the short forms of the two transcription functions are the long forms with
  language detection switched on, which sets the language parameter to
  \<^verbatim>\<open>"auto"\<close>.
\<close>

theorem short_forms_detect_language:
  "whisper_wrapper_transcribe E e wrapper audio_path
     = whisper_wrapper_transcribe_with_lang E e wrapper audio_path True
   \<and> whisper_wrapper_transcribe_pcm E e wrapper pcm_data n_samples
     = whisper_wrapper_transcribe_pcm_with_lang E e wrapper pcm_data n_samples True
   \<and> language (setup_params params True) = ''auto''"
  by (simp add: whisper_wrapper_transcribe_def whisper_wrapper_transcribe_pcm_def
      setup_params_def)

text \<open>
  C4: with a null handle, a handle without a context, a null path, null samples or a
  sample count of zero or less, each transcription function returns the literal
  \<^verbatim>\<open>"Error: Invalid parameters"\<close>, leaves the handle as it was (the previous result
  is not released) and calls neither libc, the decoder nor the engine: the list of
  events is empty.
\<close>

theorem invalid_parameters:
  "(\<not> whisper_wrapper_is_loaded wrapper \<or> audio_path = None \<longrightarrow>
      whisper_wrapper_transcribe_with_lang E e wrapper audio_path use_language_detection
        = Returns (Literal ''Error: Invalid parameters'') wrapper []
      \<and> whisper_wrapper_transcribe E e wrapper audio_path
        = Returns (Literal ''Error: Invalid parameters'') wrapper [])
   \<and> (\<not> whisper_wrapper_is_loaded wrapper \<or> pcm_data = Null \<or> n_samples \<le> 0 \<longrightarrow>
      whisper_wrapper_transcribe_pcm_with_lang E e wrapper pcm_data n_samples use_language_detection
        = Returns (Literal ''Error: Invalid parameters'') wrapper []
      \<and> whisper_wrapper_transcribe_pcm E e wrapper pcm_data n_samples
        = Returns (Literal ''Error: Invalid parameters'') wrapper [])"
  by (auto simp: whisper_wrapper_transcribe_with_lang_def whisper_wrapper_transcribe_def
      whisper_wrapper_transcribe_pcm_with_lang_def whisper_wrapper_transcribe_pcm_def
      whisper_wrapper_is_loaded_def split: option.splits)

theorem invalid_parameters_witness:
  "whisper_wrapper_transcribe_with_lang (stub_engine 0 [''hello'']) (stub_env None 0)
       (Some (loaded_handle (Some ''old''))) None True
     = Returns (Literal ''Error: Invalid parameters'') (Some (loaded_handle (Some ''old''))) []
   \<and> whisper_wrapper_transcribe (stub_engine 0 [''hello'']) (stub_env None 0)
       (Some (loaded_handle (Some ''old''))) None
     = Returns (Literal ''Error: Invalid parameters'') (Some (loaded_handle (Some ''old''))) []
   \<and> whisper_wrapper_transcribe_pcm_with_lang (stub_engine 0 [''hello'']) (stub_env None 0)
       (Some (loaded_handle (Some ''old''))) (Floats [0]) 0 True
     = Returns (Literal ''Error: Invalid parameters'') (Some (loaded_handle (Some ''old''))) []
   \<and> whisper_wrapper_transcribe_pcm (stub_engine 0 [''hello'']) (stub_env None 0)
       (Some (loaded_handle (Some ''old''))) (Floats [0]) 0
     = Returns (Literal ''Error: Invalid parameters'') (Some (loaded_handle (Some ''old''))) []"
  using invalid_parameters
    [where wrapper = "Some (loaded_handle (Some ''old''))" and audio_path = None
       and pcm_data = "Floats [0]" and n_samples = 0
       and E = "stub_engine 0 [''hello'']" and e = "stub_env None 0"
       and use_language_detection = True]
  by simp

section \<open>The decoder\<close>

subsection \<open>Reading the header\<close>

lemma short_at_take: "k + 1 < n \<Longrightarrow> short_at (take n bs) k = short_at bs k"
  by (simp add: short_at_def)

lemma int_at_take: "k + 3 < n \<Longrightarrow> int_at (take n bs) k = int_at bs k"
  by (simp add: int_at_def)

lemma read_wav_file_unopened:
  "files e filename = None \<Longrightarrow> read_wav_file e filename v = (False, v, [Fopen filename False])"
  by (simp add: read_wav_file_def)

lemma read_wav_file_short:
  "files e filename = Some bytes \<Longrightarrow> length bytes < 44 \<Longrightarrow>
   read_wav_file e filename v = (False, v, [Fopen filename True, Fread 44 False, Fclose])"
  by (simp add: read_wav_file_def Let_def split del: if_split)

lemma read_wav_file_untagged:
  "files e filename = Some bytes \<Longrightarrow> 44 \<le> length bytes \<Longrightarrow>
   take 4 bytes \<noteq> map (of_nat \<circ> of_char) ''RIFF''
     \<or> take 4 (drop 8 bytes) \<noteq> map (of_nat \<circ> of_char) ''WAVE'' \<Longrightarrow>
   read_wav_file e filename v = (False, v, [Fopen filename True, Fread 44 True, Fclose])"
  by (simp add: read_wav_file_def Let_def take_drop split del: if_split)

text \<open>What is left of the function once the header has been read and has both tags.\<close>

lemma read_wav_file_tagged:
  assumes "files e filename = Some bytes" and "44 \<le> length bytes"
    and "take 4 bytes = map (of_nat \<circ> of_char) ''RIFF''"
    and "take 4 (drop 8 bytes) = map (of_nat \<circ> of_char) ''WAVE''"
  shows "read_wav_file e filename v =
    (let ev = [Fopen filename True, Fread 44 True];
         v = v\<lparr>sample_rate := int_at bytes 24\<rparr>;
         num_channels = short_at bytes 22;
         bits_per_sample = short_at bytes 34;
         data_size = int_at bytes 40
     in
     if data_size \<le> 0 then (False, v, ev @ [Fclose])
     else if num_channels \<le> 0 then (False, v, ev @ [Fclose])
     else if bits_per_sample \<noteq> 16 \<and> bits_per_sample \<noteq> 32
             \<and> bits_per_sample \<noteq> 8 \<and> bits_per_sample \<noteq> 24 then
       (False, v, ev @ [Fclose])
     else
     let v = v\<lparr>samples := data_size sdiv (bits_per_sample sdiv 8) sdiv num_channels\<rparr> in
     if samples v \<le> 0 then (False, v, ev @ [Fclose])
     else if \<not> alloc_ok e Pcm (samples v * 4) then
       (False, v\<lparr>pcm := Null\<rparr>, ev @ [Malloc Pcm (samples v * 4) False, Fclose])
     else
     let v = v\<lparr>pcm := Uninitialised\<rparr>;
         ev = ev @ [Malloc Pcm (samples v * 4) True]
     in
     if bits_per_sample = 16 then
       read_samples e bytes data_size num_channels (channel16 e) v ev
     else if bits_per_sample = 32 then
       read_samples e bytes data_size num_channels (channel32 e) v ev
     else if bits_per_sample = 8 then
       read_samples e bytes data_size num_channels (channel8 e) v ev
     else if bits_per_sample = 24 then
       read_samples e bytes data_size num_channels (channel24 e) v ev
     else (True, v, ev @ [Fclose]))"
proof -
  have tags: "take 4 (take 44 bytes) = map (of_nat \<circ> of_char) ''RIFF''"
    "take 4 (drop 8 (take 44 bytes)) = map (of_nat \<circ> of_char) ''WAVE''"
    using assms(3,4) by (simp_all add: take_drop)
  have len: "length (take 44 bytes) = 44"
    using assms(2) by simp
  have fields: "int_at (take 44 bytes) 24 = int_at bytes 24"
    "short_at (take 44 bytes) 22 = short_at bytes 22"
    "short_at (take 44 bytes) 34 = short_at bytes 34"
    "int_at (take 44 bytes) 40 = int_at bytes 40"
    by (simp_all add: short_at_take int_at_take)
  show ?thesis
    unfolding read_wav_file_def Let_def
    by (simp only: assms(1) option.case tags len fields if_False not_not simp_thms)
qed

text \<open>
  C6: when the file cannot be opened, holds fewer than 44 bytes, or lacks
  \<^verbatim>\<open>"RIFF"\<close> at offset 0 or \<^verbatim>\<open>"WAVE"\<close> at offset 8, the decoder returns false and
  leaves all three of the caller's variables as they were (the sample pointer among
  them); it allocates nothing and reads nothing but the header.
\<close>

theorem header_rejected:
  assumes "files e filename = None
           \<or> (\<exists>bytes. files e filename = Some bytes
                \<and> (length bytes < 44
                    \<or> take 4 bytes \<noteq> map (of_nat \<circ> of_char) ''RIFF''
                    \<or> take 4 (drop 8 bytes) \<noteq> map (of_nat \<circ> of_char) ''WAVE''))"
  shows "\<exists>ev. read_wav_file e filename v = (False, v, ev)
              \<and> (\<forall>m n ok. Malloc m n ok \<notin> set ev)
              \<and> (\<forall>n. Fread n True \<in> set ev \<longrightarrow> n = 44)"
proof (cases "files e filename")
  case None
  then show ?thesis by (simp add: read_wav_file_unopened)
next
  case (Some bytes)
  show ?thesis
  proof (cases "length bytes < 44")
    case True
    with Some show ?thesis by (simp add: read_wav_file_short)
  next
    case False
    with Some assms
    have "take 4 bytes \<noteq> map (of_nat \<circ> of_char) ''RIFF''
          \<or> take 4 (drop 8 bytes) \<noteq> map (of_nat \<circ> of_char) ''WAVE''"
      by auto
    with Some False show ?thesis by (simp add: read_wav_file_untagged)
  qed
qed

theorem header_rejected_witness:
  "\<exists>ev. read_wav_file (stub_env (Some [82, 73, 70]) 0) ''a.wav''
           \<lparr>pcm = Null, samples = 0, sample_rate = 0\<rparr>
         = (False, \<lparr>pcm = Null, samples = 0, sample_rate = 0\<rparr>, ev)
        \<and> (\<forall>m n ok. Malloc m n ok \<notin> set ev)
        \<and> (\<forall>n. Fread n True \<in> set ev \<longrightarrow> n = 44)"
  by (rule header_rejected) (simp add: stub_env_def)

text \<open>
  C7: when the header's data size is zero or less, or its channel count is zero or
  less, or its bits per sample are none of 8, 16, 24 and 32, or the sample count
  computed from them is zero or less, the decoder returns false having opened the
  file, read the 44 header bytes and closed it: no sample data is read and the
  sample pointer is untouched.
\<close>

theorem bad_header_fields:
  assumes "files e filename = Some bytes" and "44 \<le> length bytes"
    and "int_at bytes 40 \<le> 0 \<or> short_at bytes 22 \<le> 0
         \<or> short_at bytes 34 \<notin> {8, 16, 24, 32}
         \<or> int_at bytes 40 sdiv (short_at bytes 34 sdiv 8) sdiv short_at bytes 22 \<le> 0"
  shows "\<exists>v'. read_wav_file e filename v = (False, v', [Fopen filename True, Fread 44 True, Fclose])
            \<and> pcm v' = pcm v"
proof (cases "take 4 bytes = map (of_nat \<circ> of_char) ''RIFF''
              \<and> take 4 (drop 8 bytes) = map (of_nat \<circ> of_char) ''WAVE''")
  case False
  then show ?thesis
    using assms(1,2) read_wav_file_untagged [of e filename bytes v] by auto
next
  case True
  note eq = read_wav_file_tagged [OF assms(1,2) True [THEN conjunct1] True [THEN conjunct2], of v]
  consider (size) "int_at bytes 40 \<le> 0"
    | (channels) "\<not> int_at bytes 40 \<le> 0" "short_at bytes 22 \<le> 0"
    | (bits) "\<not> int_at bytes 40 \<le> 0" "\<not> short_at bytes 22 \<le> 0"
        "short_at bytes 34 \<notin> {8, 16, 24, 32}"
    | (count) "\<not> int_at bytes 40 \<le> 0" "\<not> short_at bytes 22 \<le> 0"
        "\<not> short_at bytes 34 \<notin> {8, 16, 24, 32}"
        "int_at bytes 40 sdiv (short_at bytes 34 sdiv 8) sdiv short_at bytes 22 \<le> 0"
    using assms(3) by blast
  then show ?thesis
  proof cases
    case size
    then show ?thesis by (simp add: eq Let_def)
  next
    case channels
    then show ?thesis by (simp add: eq Let_def)
  next
    case bits
    then show ?thesis by (simp add: eq Let_def)
  next
    case count
    then show ?thesis by (simp add: eq Let_def)
  qed
qed

theorem bad_header_fields_witness:
  "\<exists>v'. read_wav_file (stub_env (Some (wav_header 1 12 2 @ [0, 0])) 100) ''a.wav''
           \<lparr>pcm = Null, samples = 0, sample_rate = 0\<rparr>
         = (False, v', [Fopen ''a.wav'' True, Fread 44 True, Fclose])
        \<and> pcm v' = pcm \<lparr>pcm = Null, samples = 0, sample_rate = 0\<rparr>"
  by (rule bad_header_fields [where bytes = "wav_header 1 12 2 @ [0, 0]"])
     (simp_all add: stub_env_def wav_header_def short_at_def)

subsection \<open>Converting the samples\<close>

lemma length_average_channels [simp]:
  "length (average_channels e channel n num_channels) = nat n"
  by (simp add: average_channels_def)

lemma nth_average_channels:
  assumes "i < nat n" and "0 \<le> num_channels"
  shows "average_channels e channel n num_channels ! i =
           float_mean e (map (\<lambda>j. channel (i * nat num_channels + j)) [0..<nat num_channels])"
  using assms by (simp add: average_channels_def float_mean_def foldl_map)

lemma read_samples_ok:
  assumes "alloc_ok e Wav_data data_size" and "0 \<le> data_size"
    and "44 + nat data_size \<le> length bytes"
  shows "read_samples e bytes data_size num_channels channel v ev =
    (True,
     v\<lparr>pcm := Floats (average_channels e (channel (take (nat data_size) (drop 44 bytes)))
                       (samples v) num_channels)\<rparr>,
     ev @ [Malloc Wav_data data_size True, Fread (nat data_size) True, Free Wav_data, Fclose])"
  using assms by (auto simp: read_samples_def Let_def min_def)

lemma sdiv_nonneg: "0 \<le> a \<Longrightarrow> 0 < b \<Longrightarrow> a sdiv b = a div b" for a b :: int
  by (cases "a = 0") (simp_all add: signed_divide_int_def)

lemma frame_index: "i < N \<Longrightarrow> j < C \<Longrightarrow> i * C + j < N * C" for i j N C :: nat
proof -
  assume "i < N" and "j < C"
  have "i * C + j < Suc i * C"
    using \<open>j < C\<close> by simp
  also have "Suc i * C \<le> N * C"
    by (rule mult_le_mono1) (use \<open>i < N\<close> in simp)
  finally show ?thesis .
qed

lemma decode_16:
  fixes N C :: nat
  assumes opened: "files e filename = Some bytes"
    and riff: "take 4 bytes = map (of_nat \<circ> of_char) ''RIFF''"
    and wave: "take 4 (drop 8 bytes) = map (of_nat \<circ> of_char) ''WAVE''"
    and bits: "short_at bytes 34 = 16"
    and channels: "short_at bytes 22 = int C" "1 \<le> C"
    and size: "int_at bytes 40 = int (2 * N * C)" "1 \<le> N"
    and data: "44 + 2 * N * C \<le> length bytes"
    and mem: "alloc_ok e Pcm (int (4 * N))" "alloc_ok e Wav_data (int (2 * N * C))"
  shows "read_wav_file e filename v =
    (True,
     v\<lparr>sample_rate := int_at bytes 24, samples := int N,
       pcm := Floats (average_channels e (channel16 e (take (2 * N * C) (drop 44 bytes)))
                (int N) (int C))\<rparr>,
     [Fopen filename True, Fread 44 True, Malloc Pcm (int (4 * N)) True,
      Malloc Wav_data (int (2 * N * C)) True, Fread (2 * N * C) True, Free Wav_data, Fclose])"
proof -
  have len: "44 \<le> length bytes" using data by simp
  have "int (2 * N * C) sdiv 2 = int (N * C)"
    by (simp add: sdiv_nonneg)
  moreover have "int (N * C) div int C = int (N * C div C)"
    by (simp only: zdiv_int)
  then have "int (N * C) sdiv int C = int N"
    using channels(2) by (simp add: sdiv_nonneg del: of_nat_mult)
  ultimately have count: "int (2 * N * C) sdiv 2 sdiv int C = int N"
    by simp
  have pos: "0 < 2 * N * C" using channels(2) size(2) by simp
  have four: "int N * 4 = int (4 * N)" by simp
  show ?thesis
    using channels(2) size(2) mem pos data
    by (simp add: read_wav_file_tagged [OF opened len riff wave] Let_def bits channels(1) size(1)
        count four read_samples_ok del: of_nat_mult of_nat_add)
qed

lemma frames_within:
  fixes D :: int and C N i j :: nat
  assumes "0 < D" and "1 \<le> C" and "N = nat (D sdiv 3 sdiv int C)" and "i < N" and "j < C"
  shows "3 * (i * C + j) + 2 < nat D"
proof -
  have third: "D sdiv 3 = D div 3"
    using assms(1) by (simp add: sdiv_nonneg)
  have "0 \<le> D div 3"
    using assms(1) by simp
  then have "D div 3 sdiv int C = D div 3 div int C"
    using assms(2) by (simp add: sdiv_nonneg)
  then have N: "int N = D div 3 div int C"
    using assms(1,2,3) third by (simp add: pos_imp_zdiv_nonneg_iff)
  have "D div 3 div int C * int C = D div 3 - D div 3 mod int C"
    by (simp add: minus_mod_eq_div_mult)
  moreover have "0 \<le> D div 3 mod int C"
    using assms(2) by simp
  ultimately have "int N * int C \<le> D div 3"
    unfolding N by simp
  moreover have "i * C + j < N * C"
    using assms(4,5) by (rule frame_index)
  then have "int (i * C + j) < int N * int C"
    by (metis of_nat_less_iff of_nat_mult)
  ultimately have "int (i * C + j) < D div 3"
    by simp
  then have "3 * int (i * C + j) + 2 < D"
    by arith
  then show ?thesis
    by arith
qed

lemma decode_24:
  fixes N C :: nat
  assumes opened: "files e filename = Some bytes"
    and riff: "take 4 bytes = map (of_nat \<circ> of_char) ''RIFF''"
    and wave: "take 4 (drop 8 bytes) = map (of_nat \<circ> of_char) ''WAVE''"
    and bits: "short_at bytes 34 = 24"
    and channels: "short_at bytes 22 = int C" "1 \<le> C"
    and size: "int_at bytes 40 = D" "0 < D"
    and count: "N = nat (D sdiv 3 sdiv int C)" "1 \<le> N"
    and data: "44 + nat D \<le> length bytes"
    and mem: "alloc_ok e Pcm (int (4 * N))" "alloc_ok e Wav_data D"
  shows "read_wav_file e filename v =
    (True,
     v\<lparr>sample_rate := int_at bytes 24, samples := int N,
       pcm := Floats (average_channels e (channel24 e (take (nat D) (drop 44 bytes)))
                (int N) (int C))\<rparr>,
     [Fopen filename True, Fread 44 True, Malloc Pcm (int (4 * N)) True,
      Malloc Wav_data D True, Fread (nat D) True, Free Wav_data, Fclose])"
proof -
  have len: "44 \<le> length bytes" using data by simp
  have "0 \<le> D sdiv 3 sdiv int C"
    using size(2) channels(2) by (simp add: sdiv_nonneg pos_imp_zdiv_nonneg_iff)
  then have frames: "D sdiv 3 sdiv int C = int N"
    using count(1) by simp
  have four: "int N * 4 = int (4 * N)" by simp
  show ?thesis
    using channels(2) size(2) count(2) mem data
    by (simp add: read_wav_file_tagged [OF opened len riff wave] Let_def bits channels(1) size(1)
        frames four read_samples_ok del: of_nat_mult of_nat_add)
qed

subsection \<open>Float arithmetic under a faithful rounding\<close>

lemma faithful_mono: "faithful_rounding rnd \<Longrightarrow> x \<le> y \<Longrightarrow> rnd x \<le> rnd y"
  by (simp add: faithful_rounding_def)

lemma faithful_dyadic:
  "faithful_rounding rnd \<Longrightarrow> \<bar>m\<bar> \<le> 2 ^ 24 \<Longrightarrow> k \<le> 149 \<Longrightarrow>
   rnd (real_of_int m / 2 ^ k) = real_of_int m / 2 ^ k"
  by (simp add: faithful_rounding_def)

lemma faithful_scaled:
  "faithful_rounding rnd \<Longrightarrow> \<bar>m\<bar> \<le> 2 ^ 24 \<Longrightarrow> k \<le> 103 \<Longrightarrow>
   rnd (real_of_int m * 2 ^ k) = real_of_int m * 2 ^ k"
  by (simp add: faithful_rounding_def)

lemma faithful_int:
  "faithful_rounding rnd \<Longrightarrow> \<bar>m\<bar> \<le> 2 ^ 24 \<Longrightarrow> rnd (real_of_int m) = real_of_int m"
  using faithful_dyadic [of rnd m 0] by simp

lemma faithful_exact: "faithful_rounding (\<lambda>x. x)"
  by (simp add: faithful_rounding_def)

lemma float_mean_exact:
  assumes "float_round e = (\<lambda>x. x)"
  shows "float_mean e xs = sum_list xs / real (length xs)"
proof -
  have "foldl (f_add e) a xs = a + sum_list xs" for a
    by (induction xs arbitrary: a) (simp_all add: f_add_def assms)
  then show ?thesis
    by (simp add: float_mean_def f_div_def f_of_int_def assms)
qed

lemma foldl_f_add_bound:
  assumes "faithful_rounding (float_round e)"
    and "\<forall>x \<in> set xs. - 1 \<le> x \<and> x \<le> 1" and "length xs \<le> 2 ^ 24"
  shows "\<bar>foldl (f_add e) 0 xs\<bar> \<le> real (length xs)"
  using assms(2,3)
proof (induction xs rule: rev_induct)
  case Nil
  then show ?case by simp
next
  case (snoc x xs)
  let ?s = "foldl (f_add e) 0 xs"
  let ?n = "int (length xs) + 1"
  have "\<bar>?s\<bar> \<le> real (length xs)"
    using snoc by simp
  moreover have "- 1 \<le> x" and "x \<le> 1"
    using snoc.prems(1) by simp_all
  ultimately have "- real_of_int ?n \<le> ?s + x" and "?s + x \<le> real_of_int ?n"
    by simp_all
  then have "float_round e (real_of_int (- ?n)) \<le> float_round e (?s + x)"
    and "float_round e (?s + x) \<le> float_round e (real_of_int ?n)"
    using faithful_mono [OF assms(1)] by simp_all
  moreover have "\<bar>?n\<bar> \<le> 2 ^ 24" and "\<bar>- ?n\<bar> \<le> 2 ^ 24"
    using snoc.prems(2) by simp_all
  then have "float_round e (real_of_int ?n) = real_of_int ?n"
    and "float_round e (real_of_int (- ?n)) = real_of_int (- ?n)"
    using faithful_int [OF assms(1)] by blast+
  ultimately have "\<bar>float_round e (?s + x)\<bar> \<le> real_of_int ?n"
    by simp
  moreover have "foldl (f_add e) 0 (xs @ [x]) = f_add e ?s x"
    by simp
  moreover have "f_add e ?s x = float_round e (?s + x)"
    by (rule f_add_def)
  ultimately show ?case
    by simp
qed

lemma float_mean_range:
  assumes "faithful_rounding (float_round e)"
    and "\<forall>x \<in> set xs. - 1 \<le> x \<and> x \<le> 1" and "xs \<noteq> []" and "length xs \<le> 2 ^ 24"
  shows "- 1 \<le> float_mean e xs \<and> float_mean e xs \<le> 1"
proof -
  let ?s = "foldl (f_add e) 0 xs"
  let ?n = "int (length xs)"
  have n: "f_of_int e ?n = real (length xs)"
    using faithful_int [OF assms(1), of ?n] assms(4) by (simp add: f_of_int_def)
  have "0 < real (length xs)"
    using assms(3) by simp
  moreover have "\<bar>?s\<bar> \<le> real (length xs)"
    using assms(1,2,4) by (rule foldl_f_add_bound)
  ultimately have "- 1 \<le> ?s / real (length xs)" and "?s / real (length xs) \<le> 1"
    by (simp_all add: field_simps)
  then have "float_round e (real_of_int (- 1)) \<le> float_round e (?s / real (length xs))"
    and "float_round e (?s / real (length xs)) \<le> float_round e (real_of_int 1)"
    using faithful_mono [OF assms(1)] by simp_all
  moreover have "float_round e (real_of_int (- 1)) = real_of_int (- 1)"
    and "float_round e (real_of_int 1) = real_of_int 1"
    by (rule faithful_int [OF assms(1)]; simp)+
  ultimately show ?thesis
    by (simp add: float_mean_def f_div_def n)
qed

lemma float_mean_two:
  assumes "faithful_rounding (float_round e)"
    and "\<bar>m\<bar> \<le> 32768" and "\<bar>n\<bar> \<le> 32768"
  shows "float_mean e [real_of_int m / 32768, real_of_int n / 32768]
           = (real_of_int m / 32768 + real_of_int n / 32768) / 2"
proof -
  note exact = faithful_dyadic [OF assms(1)]
  have a: "float_round e (real_of_int m / 32768) = real_of_int m / 32768"
    using exact [of m 15] assms(2) by simp
  have "float_round e (real_of_int (m + n) / 2 ^ 15) = real_of_int (m + n) / 2 ^ 15"
    by (rule exact) (use assms(2,3) in simp_all)
  then have sum: "float_round e (real_of_int m / 32768 + real_of_int n / 32768)
                    = real_of_int m / 32768 + real_of_int n / 32768"
    by (simp add: add_divide_distrib)
  have two: "float_round e 2 = 2"
    using faithful_int [OF assms(1), of 2] by simp
  have "float_round e (real_of_int (m + n) / 2 ^ 16) = real_of_int (m + n) / 2 ^ 16"
    by (rule exact) (use assms(2,3) in simp_all)
  then have half: "float_round e ((real_of_int m / 32768 + real_of_int n / 32768) / 2)
                     = (real_of_int m / 32768 + real_of_int n / 32768) / 2"
    by (simp add: add_divide_distrib)
  show ?thesis
    by (simp add: float_mean_def f_add_def f_div_def f_of_int_def a sum two half)
qed

subsection \<open>16-bit samples\<close>

lemma short_at_data:
  "2 * k + 1 < n \<Longrightarrow> short_at (take n bs) (2 * k) = short_at bs (2 * k)"
  by (simp add: short_at_def)

lemma short_at_range: "- 32768 \<le> short_at bs k \<and> short_at bs k \<le> 32767"
proof -
  let ?w = "ucast (bs ! k) OR push_bit 8 (ucast (bs ! (k + 1))) :: 16 word"
  have "- (2 ^ (LENGTH(16) - 1)) \<le> sint ?w" and "sint ?w < 2 ^ (LENGTH(16) - 1)"
    by (rule sint_ge, rule sint_lt)
  then show ?thesis by (simp add: short_at_def)
qed

lemma channel16_data:
  assumes "k < n"
  shows "channel16 e (take (2 * n) bs) k = f_div e (f_of_int e (short_at bs (2 * k))) 32768"
proof -
  have "2 * k + 1 < 2 * n" using assms by simp
  then show ?thesis by (simp add: channel16_def short_at_data)
qed

lemma channel16_exact:
  assumes "faithful_rounding (float_round e)"
  shows "f_div e (f_of_int e (short_at bs k)) 32768 = real_of_int (short_at bs k) / 32768"
proof -
  have small: "\<bar>short_at bs k\<bar> \<le> 2 ^ 24"
    using short_at_range [of bs k] by simp arith
  have "float_round e (real_of_int (short_at bs k) / 2 ^ 15) = real_of_int (short_at bs k) / 2 ^ 15"
    using assms small by (rule faithful_dyadic) simp
  then show ?thesis
    by (simp add: f_div_def f_of_int_def faithful_int [OF assms small])
qed

lemma channel16_range:
  "- 1 \<le> real_of_int (short_at bs k) / 32768 \<and> real_of_int (short_at bs k) / 32768 \<le> 1"
  using short_at_range [of bs k] by simp

text \<open>
  C5: a 16-bit file with \<open>N \<ge> 1\<close> frames of \<open>C \<ge> 1\<close> channels (a header with both
  tags that declares 16 bits, \<open>C\<close> channels and \<open>2 * N * C\<close> data bytes, followed by at
  least that many bytes), decoded with the two buffers granted, gives exactly \<open>N\<close>
  samples. Sample \<open>i\<close> is the mean, in float arithmetic, over the channels \<open>j\<close> of
  the signed 16-bit value number \<open>i * C + j\<close> of the data divided by 32768. Under a
  faithful rounding each quotient is exact, every sample lies between -1 and 1, and
  with two channels the sample is exactly half the sum of the frame's two quotients.
\<close>

theorem decode_16_bit:
  fixes N C :: nat
  assumes "files e filename = Some bytes"
    and "take 4 bytes = map (of_nat \<circ> of_char) ''RIFF''"
    and "take 4 (drop 8 bytes) = map (of_nat \<circ> of_char) ''WAVE''"
    and "short_at bytes 34 = 16"
    and "short_at bytes 22 = int C" and "1 \<le> C"
    and "int_at bytes 40 = int (2 * N * C)" and "1 \<le> N"
    and "44 + 2 * N * C \<le> length bytes"
    and "alloc_ok e Pcm (int (4 * N))" and "alloc_ok e Wav_data (int (2 * N * C))"
  shows "\<exists>v' ev xs. read_wav_file e filename v = (True, v', ev)
           \<and> samples v' = int N \<and> pcm v' = Floats xs \<and> length xs = N
           \<and> (\<forall>i<N. xs ! i =
                 float_mean e
                   (map (\<lambda>j. f_div e (f_of_int e (short_at (drop 44 bytes) (2 * (i * C + j)))) 32768)
                      [0..<C]))
           \<and> (faithful_rounding (float_round e) \<longrightarrow>
                (\<forall>k. f_div e (f_of_int e (short_at (drop 44 bytes) k)) 32768
                        = real_of_int (short_at (drop 44 bytes) k) / 32768)
                \<and> (\<forall>i<N. - 1 \<le> xs ! i \<and> xs ! i \<le> 1
                      \<and> (C = 2 \<longrightarrow>
                           xs ! i = (real_of_int (short_at (drop 44 bytes) (4 * i)) / 32768
                                     + real_of_int (short_at (drop 44 bytes) (4 * i + 2)) / 32768)
                                    / 2)))"
proof -
  let ?data = "drop 44 bytes"
  let ?xs = "average_channels e (channel16 e (take (2 * N * C) ?data)) (int N) (int C)"
  let ?c = "\<lambda>k. f_div e (f_of_int e (short_at ?data (2 * k))) 32768"
  let ?s = "\<lambda>k. real_of_int (short_at ?data k) / 32768"
  have nth: "?xs ! i = float_mean e (map (\<lambda>j. ?c (i * C + j)) [0..<C])" if "i < N" for i
  proof -
    have "channel16 e (take (2 * N * C) ?data) (i * C + j) = ?c (i * C + j)" if "j < C" for j
      using channel16_data [of "i * C + j" "N * C" e ?data] frame_index [OF \<open>i < N\<close> that]
      by (simp add: mult.assoc)
    then have "map (\<lambda>j. channel16 e (take (2 * N * C) ?data) (i * C + j)) [0..<C]
                 = map (\<lambda>j. ?c (i * C + j)) [0..<C]"
      by simp
    moreover have "?xs ! i
        = float_mean e (map (\<lambda>j. channel16 e (take (2 * N * C) ?data) (i * C + j)) [0..<C])"
      using that nth_average_channels [of i "int N" "int C" e] by simp
    ultimately show ?thesis by (simp only:)
  qed
  have faithful: "(\<forall>k. f_div e (f_of_int e (short_at ?data k)) 32768 = ?s k)
      \<and> (\<forall>i<N. - 1 \<le> ?xs ! i \<and> ?xs ! i \<le> 1
            \<and> (C = 2 \<longrightarrow> ?xs ! i = (?s (4 * i) + ?s (4 * i + 2)) / 2))"
    if rnd: "faithful_rounding (float_round e)"
  proof (intro conjI allI impI)
    show exact: "f_div e (f_of_int e (short_at ?data k)) 32768 = ?s k" for k
      using rnd by (rule channel16_exact)
    fix i assume "i < N"
    note mean = nth [OF \<open>i < N\<close>]
    have "int C \<le> 32767"
      using short_at_range [of bytes 22] \<open>short_at bytes 22 = int C\<close> by simp
    then have count: "length (map (\<lambda>j. ?c (i * C + j)) [0..<C]) \<le> 2 ^ 24"
      by simp
    have each: "\<forall>x \<in> set (map (\<lambda>j. ?c (i * C + j)) [0..<C]). - 1 \<le> x \<and> x \<le> 1"
      using channel16_range by (auto simp: exact)
    have some: "map (\<lambda>j. ?c (i * C + j)) [0..<C] \<noteq> []"
      using \<open>1 \<le> C\<close> by simp
    show "- 1 \<le> ?xs ! i" and "?xs ! i \<le> 1"
      using float_mean_range [OF rnd each some count] by (simp_all only: mean)
    assume "C = 2"
    have "[0..<2] = [0, 1 :: nat]"
      by (simp add: numeral_2_eq_2)
    then have "map (\<lambda>j. ?c (i * C + j)) [0..<C] = [?c (i * 2 + 0), ?c (i * 2 + 1)]"
      unfolding \<open>C = 2\<close> by (simp only: list.map)
    moreover have "?c (i * 2 + 0) = ?s (4 * i)" and "?c (i * 2 + 1) = ?s (4 * i + 2)"
      using exact [of "2 * (i * 2 + 0)"] exact [of "2 * (i * 2 + 1)"] by simp_all
    ultimately have "?xs ! i = float_mean e [?s (4 * i), ?s (4 * i + 2)]"
      by (simp only: mean)
    moreover have "\<bar>short_at ?data k\<bar> \<le> 32768" for k
      using short_at_range [of ?data k] by arith
    ultimately show "?xs ! i = (?s (4 * i) + ?s (4 * i + 2)) / 2"
      by (simp only: float_mean_two [OF rnd])
  qed
  let ?v' = "v\<lparr>sample_rate := int_at bytes 24, samples := int N, pcm := Floats ?xs\<rparr>"
  have "read_wav_file e filename v =
    (True, ?v',
     [Fopen filename True, Fread 44 True, Malloc Pcm (int (4 * N)) True,
      Malloc Wav_data (int (2 * N * C)) True, Fread (2 * N * C) True, Free Wav_data, Fclose])"
    using assms by (rule decode_16)
  moreover have "samples ?v' = int N" and "pcm ?v' = Floats ?xs" and "length ?xs = N"
    by simp_all
  moreover have "\<forall>i<N. ?xs ! i = float_mean e (map (\<lambda>j. ?c (i * C + j)) [0..<C])"
    using nth by blast
  ultimately show ?thesis
    using faithful by blast
qed

lemma list_of_length_two: "length xs = 2 \<Longrightarrow> xs = [xs ! 0, xs ! 1]"
  by (cases xs; cases "tl xs") auto

theorem decode_16_bit_witness:
  "\<exists>v' ev. read_wav_file (stub_env (Some stereo16) 100) ''a.wav''
              \<lparr>pcm = Null, samples = 0, sample_rate = 0\<rparr> = (True, v', ev)
           \<and> samples v' = 2 \<and> pcm v' = Floats [0, - 1 / 65536]"
proof -
  let ?e = "stub_env (Some stereo16) 100"
  have header: "take 4 stereo16 = map (of_nat \<circ> of_char) ''RIFF''"
    "take 4 (drop 8 stereo16) = map (of_nat \<circ> of_char) ''WAVE''"
    "short_at stereo16 34 = 16" "short_at stereo16 22 = int 2"
    "int_at stereo16 40 = int (2 * 2 * 2)" "44 + 2 * 2 * 2 \<le> length stereo16"
    by (simp_all add: stereo16_def wav_header_def short_at_def int_at_def)
  have data: "drop 44 stereo16 = [0, 64, 0, 192, 255, 127, 0, 128]"
    by (simp add: stereo16_def wav_header_def)
  have env: "files ?e ''a.wav'' = Some stereo16" "alloc_ok ?e Pcm (int (4 * 2))"
    "alloc_ok ?e Wav_data (int (2 * 2 * 2))" "faithful_rounding (float_round ?e)"
    by (simp_all add: stub_env_def faithful_exact)
  have one: "(1::nat) \<le> 2"
    by simp
  from decode_16_bit [OF env(1) header(1-4) one header(5) one header(6) env(2,3),
      of "\<lparr>pcm = Null, samples = 0, sample_rate = 0\<rparr>"] env(4)
  obtain v' ev xs where
    run: "read_wav_file ?e ''a.wav'' \<lparr>pcm = Null, samples = 0, sample_rate = 0\<rparr> = (True, v', ev)"
    and v': "samples v' = int 2" "pcm v' = Floats xs" and len: "length xs = 2"
    and each: "\<forall>i<2. - 1 \<le> xs ! i \<and> xs ! i \<le> 1
        \<and> ((2::nat) = 2 \<longrightarrow>
             xs ! i = (real_of_int (short_at (drop 44 stereo16) (4 * i)) / 32768
                       + real_of_int (short_at (drop 44 stereo16) (4 * i + 2)) / 32768) / 2)"
    by blast
  have "xs ! 0 = 0"
    using each [rule_format, of 0] by (simp add: data short_at_def)
  moreover have "xs ! 1 = - 1 / 65536"
    using each [rule_format, of 1] by (simp add: data short_at_def)
  ultimately have "xs = [0, - 1 / 65536]"
    using list_of_length_two [OF len] by simp
  with run v' show ?thesis by simp
qed

subsection \<open>24-bit samples\<close>

lemma byte_bit: "bit b k \<Longrightarrow> k < 8" for b :: byte
  by (auto dest: bit_imp_le_length)

lemma sample24_unpack24: "sample24 b0 b1 b2 = 256 * unpack24 b0 b1 b2"
proof -
  have "sample24 b0 b1 b2 = push_bit 8 (unpack24 b0 b1 b2)"
    unfolding sample24_def unpack24_def
    by (rule bit_eqI) (auto simp: bit_simps min_def dest: byte_bit split: if_splits)
  then show ?thesis by (simp add: push_bit_eq_mult)
qed

lemma unpack24_range: "- 8388608 \<le> unpack24 b0 b1 b2 \<and> unpack24 b0 b1 b2 < 8388608"
proof -
  let ?w = "ucast b0 OR push_bit 8 (ucast b1) OR push_bit 16 (ucast b2) :: 24 word"
  have "- (2 ^ (LENGTH(24) - 1)) \<le> sint ?w" and "sint ?w < 2 ^ (LENGTH(24) - 1)"
    by (rule sint_ge, rule sint_lt)
  then show ?thesis by (simp add: unpack24_def)
qed

lemma channel24_exact:
  assumes "faithful_rounding (float_round e)"
  shows "f_div e (f_of_int e (sample24 b0 b1 b2)) 2147483648
           = real_of_int (sample24 b0 b1 b2) / 2147483648"
proof -
  let ?u = "unpack24 b0 b1 b2"
  let ?s = "sample24 b0 b1 b2"
  have small: "\<bar>?u\<bar> \<le> 2 ^ 24"
    using unpack24_range [of b0 b1 b2] by simp arith
  have shifted: "real_of_int ?s = real_of_int ?u * 2 ^ 8"
    by (simp add: sample24_unpack24)
  have scaled: "real_of_int ?s / 2147483648 = real_of_int ?u / 2 ^ 23"
    by (simp add: sample24_unpack24)
  have "float_round e (real_of_int ?u * 2 ^ 8) = real_of_int ?u * 2 ^ 8"
    using assms small by (rule faithful_scaled) simp
  then have "f_of_int e ?s = real_of_int ?s"
    by (simp only: f_of_int_def shifted)
  then have "f_div e (f_of_int e ?s) 2147483648 = float_round e (real_of_int ?u / 2 ^ 23)"
    by (simp only: f_div_def scaled)
  also have "\<dots> = real_of_int ?u / 2 ^ 23"
    using assms small by (rule faithful_dyadic) simp
  finally show ?thesis
    by (simp only: scaled)
qed

lemma channel24_at:
  assumes "3 * k + 2 < m"
  shows "channel24 e (take m bs) k =
           f_div e (f_of_int e (sample24 (bs ! (3 * k)) (bs ! (3 * k + 1)) (bs ! (3 * k + 2))))
             2147483648"
  using assms by (simp add: channel24_def)

text \<open>
  C2: decoding a 24-bit file whose header announces \<open>D > 0\<close> bytes of data in frames of
  \<open>C \<ge> 1\<close> channels, with the \<open>D\<close> bytes present and both buffers granted, succeeds
  with \<open>N = D / 3 / C\<close> samples (the integer quotients; at least one), whether or not
  \<open>D\<close> is a multiple of the frame size. Each channel's value is the signed 32-bit
  integer \<^verbatim>\<open>(b0 << 8) | (b1 << 16) | (b2 << 24)\<close> of its three bytes, converted to float
  and divided by 2147483648, and sample \<open>i\<close> is the mean, in float arithmetic, of these
  values over the channels of frame \<open>i\<close>. That integer is 256 times the usual signed
  24-bit reading of the bytes; under a faithful rounding its conversion and the
  division are exact.
\<close>

theorem decode_24_bit:
  fixes N C :: nat
  assumes "files e filename = Some bytes"
    and "take 4 bytes = map (of_nat \<circ> of_char) ''RIFF''"
    and "take 4 (drop 8 bytes) = map (of_nat \<circ> of_char) ''WAVE''"
    and "short_at bytes 34 = 24"
    and "short_at bytes 22 = int C" and "1 \<le> C"
    and "int_at bytes 40 = D" and "0 < D"
    and "N = nat (D sdiv 3 sdiv int C)" and "1 \<le> N"
    and "44 + nat D \<le> length bytes"
    and "alloc_ok e Pcm (int (4 * N))" and "alloc_ok e Wav_data D"
  shows "(\<exists>v' ev xs. read_wav_file e filename v = (True, v', ev)
            \<and> samples v' = int N \<and> pcm v' = Floats xs \<and> length xs = N
            \<and> (\<forall>i<N. xs ! i =
                  float_mean e
                    (map (\<lambda>j. f_div e
                                (f_of_int e
                                   (sample24 (drop 44 bytes ! (3 * (i * C + j)))
                                             (drop 44 bytes ! (3 * (i * C + j) + 1))
                                             (drop 44 bytes ! (3 * (i * C + j) + 2))))
                                2147483648)
                       [0..<C])))
         \<and> (\<forall>b0 b1 b2.
               sample24 b0 b1 b2
                 = sint (push_bit 8 (ucast b0) OR push_bit 16 (ucast b1) OR push_bit 24 (ucast b2)
                         :: 32 word)
               \<and> sample24 b0 b1 b2 = 256 * unpack24 b0 b1 b2
               \<and> (faithful_rounding (float_round e) \<longrightarrow>
                    f_div e (f_of_int e (sample24 b0 b1 b2)) 2147483648
                      = real_of_int (sample24 b0 b1 b2) / 2147483648))"
proof -
  let ?data = "drop 44 bytes"
  let ?xs = "average_channels e (channel24 e (take (nat D) ?data)) (int N) (int C)"
  let ?c = "\<lambda>k. f_div e
                 (f_of_int e (sample24 (?data ! (3 * k)) (?data ! (3 * k + 1)) (?data ! (3 * k + 2))))
                 2147483648"
  have nth: "?xs ! i = float_mean e (map (\<lambda>j. ?c (i * C + j)) [0..<C])" if "i < N" for i
  proof -
    have "channel24 e (take (nat D) ?data) (i * C + j) = ?c (i * C + j)" if "j < C" for j
      using frames_within [OF assms(8) assms(6) assms(9) \<open>i < N\<close> that]
      by (rule channel24_at)
    then have "map (\<lambda>j. channel24 e (take (nat D) ?data) (i * C + j)) [0..<C]
                 = map (\<lambda>j. ?c (i * C + j)) [0..<C]"
      by simp
    moreover have "?xs ! i
        = float_mean e (map (\<lambda>j. channel24 e (take (nat D) ?data) (i * C + j)) [0..<C])"
      using that nth_average_channels [of i "int N" "int C" e] by simp
    ultimately show ?thesis by (simp only:)
  qed
  let ?v' = "v\<lparr>sample_rate := int_at bytes 24, samples := int N, pcm := Floats ?xs\<rparr>"
  have "read_wav_file e filename v =
    (True, ?v',
     [Fopen filename True, Fread 44 True, Malloc Pcm (int (4 * N)) True,
      Malloc Wav_data D True, Fread (nat D) True, Free Wav_data, Fclose])"
    using assms by (rule decode_24)
  moreover have "samples ?v' = int N" and "pcm ?v' = Floats ?xs" and "length ?xs = N"
    by simp_all
  moreover have "\<forall>i<N. ?xs ! i = float_mean e (map (\<lambda>j. ?c (i * C + j)) [0..<C])"
    using nth by blast
  ultimately have "\<exists>v' ev xs. read_wav_file e filename v = (True, v', ev)
            \<and> samples v' = int N \<and> pcm v' = Floats xs \<and> length xs = N
            \<and> (\<forall>i<N. xs ! i = float_mean e (map (\<lambda>j. ?c (i * C + j)) [0..<C]))"
    by blast
  moreover have "\<forall>b0 b1 b2.
      sample24 b0 b1 b2
        = sint (push_bit 8 (ucast b0) OR push_bit 16 (ucast b1) OR push_bit 24 (ucast b2) :: 32 word)
      \<and> sample24 b0 b1 b2 = 256 * unpack24 b0 b1 b2
      \<and> (faithful_rounding (float_round e) \<longrightarrow>
           f_div e (f_of_int e (sample24 b0 b1 b2)) 2147483648
             = real_of_int (sample24 b0 b1 b2) / 2147483648)"
    by (intro allI conjI impI) (rule sample24_def, rule sample24_unpack24, erule channel24_exact)
  ultimately show ?thesis by blast
qed

theorem decode_24_bit_witness:
  "(\<exists>v' ev. read_wav_file (stub_env (Some stereo24) 100) ''a.wav''
              \<lparr>pcm = Null, samples = 0, sample_rate = 0\<rparr> = (True, v', ev)
            \<and> samples v' = 2
            \<and> pcm v' = Floats [(- 2147352320 / 2147483648 + 1 / 2) / 2, - 1 / 4])
   \<and> sample24 1 2 128 = - 2147352320 \<and> unpack24 1 2 128 = - 8388095"
proof -
  let ?e = "stub_env (Some stereo24) 100"
  have header: "take 4 stereo24 = map (of_nat \<circ> of_char) ''RIFF''"
    "take 4 (drop 8 stereo24) = map (of_nat \<circ> of_char) ''WAVE''"
    "short_at stereo24 34 = 24" "short_at stereo24 22 = int 2"
    "int_at stereo24 40 = 13" "44 + nat 13 \<le> length stereo24"
    by (simp_all add: stereo24_def wav_header_def short_at_def int_at_def)
  have data: "drop 44 stereo24 = [1, 2, 128, 0, 0, 64, 0, 0, 0, 0, 0, 192, 7]"
    by (simp add: stereo24_def wav_header_def)
  have env: "files ?e ''a.wav'' = Some stereo24" "alloc_ok ?e Pcm (int (4 * 2))"
    "alloc_ok ?e Wav_data 13" "faithful_rounding (float_round ?e)"
    "float_round ?e = (\<lambda>x. x)"
    by (simp_all add: stub_env_def faithful_exact)
  have unpack: "unpack24 1 2 128 = - 8388095" "unpack24 0 0 64 = 4194304"
    "unpack24 0 0 0 = 0" "unpack24 0 0 192 = - 4194304"
    by (simp_all add: unpack24_def)
  have frames: "(2::nat) = nat (13 sdiv 3 sdiv int 2)"
    by (simp add: sdiv_nonneg)
  have some: "(1::nat) \<le> 2" "(0::int) < 13"
    by simp_all
  note claim = decode_24_bit [OF env(1) header(1-4) some(1) header(5) some(2) frames some(1)
      header(6) env(2,3), of "\<lparr>pcm = Null, samples = 0, sample_rate = 0\<rparr>"]
  from claim [THEN conjunct1]
  obtain v' ev xs where
    run: "read_wav_file ?e ''a.wav'' \<lparr>pcm = Null, samples = 0, sample_rate = 0\<rparr> = (True, v', ev)"
    and v': "samples v' = int 2" "pcm v' = Floats xs" and len: "length xs = 2"
    and each: "\<forall>i<2. xs ! i =
        float_mean ?e
          (map (\<lambda>j. f_div ?e
                      (f_of_int ?e
                         (sample24 (drop 44 stereo24 ! (3 * (i * 2 + j)))
                                   (drop 44 stereo24 ! (3 * (i * 2 + j) + 1))
                                   (drop 44 stereo24 ! (3 * (i * 2 + j) + 2))))
                      2147483648)
             [0..<2])"
    by (elim exE conjE)
  have shifted: "sample24 b0 b1 b2 = 256 * unpack24 b0 b1 b2" for b0 b1 b2
    using claim [THEN conjunct2, rule_format, of b0 b1 b2] by (elim conjE)
  have exact: "f_div ?e (f_of_int ?e (sample24 b0 b1 b2)) 2147483648
                 = real_of_int (sample24 b0 b1 b2) / 2147483648" for b0 b1 b2
    using claim [THEN conjunct2, rule_format, of b0 b1 b2] env(4) by (elim conjE) (rule mp)
  have s: "sample24 1 2 128 = - 2147352320" "sample24 0 0 64 = 1073741824"
    "sample24 0 0 0 = 0" "sample24 0 0 192 = - 1073741824"
    using shifted unpack by simp_all
  have both: "[0..<2] = [0, 1 :: nat]"
    by (simp add: numeral_2_eq_2)
  have "xs ! 0 = float_mean ?e [- 2147352320 / 2147483648, 1073741824 / 2147483648]"
    using each [rule_format, of 0] by (simp add: data exact s both)
  then have first: "xs ! 0 = (- 2147352320 / 2147483648 + 1 / 2) / 2"
    by (simp only: float_mean_exact [OF env(5)]) simp
  have "xs ! 1 = float_mean ?e [0 / 2147483648, - 1073741824 / 2147483648]"
    using each [rule_format, of 1] by (simp add: data exact s both)
  then have second: "xs ! 1 = - 1 / 4"
    by (simp only: float_mean_exact [OF env(5)]) simp
  have "xs = [(- 2147352320 / 2147483648 + 1 / 2) / 2, - 1 / 4]"
    using list_of_length_two [OF len] first second by simp
  with run v' s(1) unpack(1) show ?thesis by simp
qed

subsection \<open>A decoded example\<close>

lemma decode_stereo16:
  "read_wav_file (stub_env (Some stereo16) limit) ''a.wav'' \<lparr>pcm = Null, samples = 0, sample_rate = 0\<rparr>
   = (if 8 \<le> limit then
        (True, \<lparr>pcm = Floats [0, - 1 / 65536], samples = 2, sample_rate = 16000\<rparr>,
         [Fopen ''a.wav'' True, Fread 44 True, Malloc Pcm 8 True, Malloc Wav_data 8 True,
          Fread 8 True, Free Wav_data, Fclose])
      else
        (False, \<lparr>pcm = Null, samples = 2, sample_rate = 16000\<rparr>,
         [Fopen ''a.wav'' True, Fread 44 True, Malloc Pcm 8 False, Fclose]))"
proof -
  have "[0..<2] = [0, 1 :: nat]"
    by (simp add: numeral_2_eq_2)
  then show ?thesis
    by (simp add: read_wav_file_def read_samples_def average_channels_def channel16_def
        f_div_def f_add_def f_of_int_def
        short_at_def int_at_def stub_env_def stereo16_def wav_header_def Let_def)
qed

section \<open>Transcription\<close>

subsection \<open>The loop over the segments\<close>

lemma concat_segments_done:
  "\<not> i < n \<Longrightarrow> concat_segments E e w c n i bs buf tr
     = Returns (Owned buf) (Some (w\<lparr>result_buffer := Some buf\<rparr>)) tr"
  by (subst concat_segments.simps) simp

lemma concat_segments_left:
  "i < n \<Longrightarrow> append_segment E e w c n i bs buf tr = Inl out \<Longrightarrow>
   concat_segments E e w c n i bs buf tr = out"
  by (subst concat_segments.simps) simp

lemma concat_segments_next:
  "i < n \<Longrightarrow> append_segment E e w c n i bs buf tr = Inr (bs', buf', tr') \<Longrightarrow>
   concat_segments E e w c n i bs buf tr = concat_segments E e w c n (i + 1) bs' buf' tr'"
  by (subst concat_segments.simps) simp


lemma append_segment_prepend:
  "append_segment E e w c n i bs buf (tr0 @ tr) =
     (case append_segment E e w c n i bs buf tr of
        Inl out \<Rightarrow> Inl (prepend_events tr0 out)
      | Inr (bs', buf', tr') \<Rightarrow> Inr (bs', buf', tr0 @ tr'))"
  unfolding append_segment_def Let_def
  by (cases "int (length buf) + int (length (whisper_full_get_segment_text E c i)) + 2 > INT_MAX";
      cases "bs * 2 > INT_MAX";
      cases "int (length buf) + int (length (whisper_full_get_segment_text E c i)) + 2 > bs";
      cases "alloc_ok e Result_buffer (bs * 2)";
      cases "strcat bs buf (whisper_full_get_segment_text E c i)";
      cases "strcat (bs * 2) buf (whisper_full_get_segment_text E c i)";
      cases "i < n - 1";
      simp split: option.splits)


lemma concat_segments_prepend:
  "concat_segments E e w c n i bs buf (tr0 @ tr) =
     prepend_events tr0 (concat_segments E e w c n i bs buf tr)"
proof (induction E e w c n i bs buf tr rule: concat_segments.induct)
  case (1 E e w c n i bs buf tr)
  show ?case
  proof (cases "i < n")
    case False
    then show ?thesis by (simp add: concat_segments_done)
  next
    case True
    show ?thesis
    proof (cases "append_segment E e w c n i bs buf tr")
      case (Inl out)
      then have "append_segment E e w c n i bs buf (tr0 @ tr) = Inl (prepend_events tr0 out)"
        by (simp add: append_segment_prepend)
      then show ?thesis
        by (simp only: concat_segments_left [OF True Inl] concat_segments_left [OF True])
    next
      case (Inr next_state)
      obtain bs' buf' tr' where s: "next_state = (bs', buf', tr')"
        by (cases next_state)
      have step: "append_segment E e w c n i bs buf tr = Inr (bs', buf', tr')"
        using Inr s by simp
      then have "append_segment E e w c n i bs buf (tr0 @ tr) = Inr (bs', buf', tr0 @ tr')"
        by (simp add: append_segment_prepend)
      then have "concat_segments E e w c n i bs buf (tr0 @ tr)
          = concat_segments E e w c n (i + 1) bs' buf' (tr0 @ tr')"
        by (rule concat_segments_next [OF True])
      also have "\<dots> = prepend_events tr0 (concat_segments E e w c n (i + 1) bs' buf' tr')"
        by (rule "1.IH" [OF True Inr s [symmetric] refl])
      also have "concat_segments E e w c n (i + 1) bs' buf' tr'
          = concat_segments E e w c n i bs buf tr"
        by (rule concat_segments_next [OF True step, symmetric])
      finally show ?thesis .
    qed
  qed
qed

lemma collect_segments_prepend:
  "collect_segments E e w c (tr0 @ tr) = prepend_events tr0 (collect_segments E e w c tr)"
  using concat_segments_prepend [of E e w c "whisper_full_n_segments E c" 0 "1024 * 16" "[]" tr0
      "tr @ [Whisper_full_n_segments, Malloc Result_buffer (1024 * 16) True]"]
  by (simp add: collect_segments_def Let_def)

lemma transcribe_with_lang_frees_first:
  assumes "ctx w = Some c"
  shows "whisper_wrapper_transcribe_with_lang E e (Some w) (Some path) l =
     prepend_events (case result_buffer w of None \<Rightarrow> [] | Some b \<Rightarrow> [Free Result_buffer])
       (whisper_wrapper_transcribe_with_lang E e (Some (w\<lparr>result_buffer := None\<rparr>)) (Some path) l)"
proof -
  obtain ok v ev where decode:
    "read_wav_file e path \<lparr>pcm = Null, samples = 0, sample_rate = 0\<rparr> = (ok, v, ev)"
    by (cases "read_wav_file e path \<lparr>pcm = Null, samples = 0, sample_rate = 0\<rparr>")
  obtain status c' where inference:
    "whisper_full E c (setup_params (whisper_full_default_params E) l) (pcm v) (samples v)
       = (status, c')"
    by (cases "whisper_full E c (setup_params (whisper_full_default_params E) l) (pcm v) (samples v)")
  show ?thesis
    using assms
    by (simp add: whisper_wrapper_transcribe_with_lang_def Let_def decode inference
        collect_segments_prepend [symmetric])
qed

lemma transcribe_pcm_with_lang_frees_first:
  assumes "ctx w = Some c" and "pcm_data \<noteq> Null" and "0 < n"
  shows "whisper_wrapper_transcribe_pcm_with_lang E e (Some w) pcm_data n l =
     prepend_events (case result_buffer w of None \<Rightarrow> [] | Some b \<Rightarrow> [Free Result_buffer])
       (whisper_wrapper_transcribe_pcm_with_lang E e (Some (w\<lparr>result_buffer := None\<rparr>)) pcm_data n l)"
proof -
  obtain status c' where inference:
    "whisper_full E c
       ((setup_params (whisper_full_default_params E) l)\<lparr>no_context := True, single_segment := True\<rparr>)
       pcm_data n = (status, c')"
    by (cases "whisper_full E c
       ((setup_params (whisper_full_default_params E) l)\<lparr>no_context := True, single_segment := True\<rparr>)
       pcm_data n")
  show ?thesis
    using assms
    by (simp add: whisper_wrapper_transcribe_pcm_with_lang_def Let_def inference
        collect_segments_prepend [symmetric])
qed

text \<open>How one pass through the loop body can end.\<close>

lemma append_segment_Inl:
  assumes "append_segment E e w c n i bs buf tr = Inl out"
  shows "out = Undefined_behaviour
         \<or> out = Returns (Owned ''Error: Failed to allocate memory for transcription'')
                   (Some (w\<lparr>result_buffer :=
                              Some ''Error: Failed to allocate memory for transcription''\<rparr>))
                   (tr @ [Whisper_full_get_segment_text i,
                          Realloc Result_buffer (bs * 2) False, Free Result_buffer,
                          Strdup ''Error: Failed to allocate memory for transcription''])"
  using assms unfolding append_segment_def Let_def
  by (cases "int (length buf) + int (length (whisper_full_get_segment_text E c i)) + 2 > INT_MAX";
      cases "bs * 2 > INT_MAX";
      cases "int (length buf) + int (length (whisper_full_get_segment_text E c i)) + 2 > bs";
      cases "alloc_ok e Result_buffer (bs * 2)";
      cases "strcat bs buf (whisper_full_get_segment_text E c i)";
      cases "strcat (bs * 2) buf (whisper_full_get_segment_text E c i)";
      cases "i < n - 1";
      auto split: option.splits)

lemma append_segment_Inr:
  assumes "append_segment E e w c n i bs buf tr = Inr (bs', buf', tr')"
  shows "tr' = tr @ [Whisper_full_get_segment_text i]
         \<or> tr' = tr @ [Whisper_full_get_segment_text i, Realloc Result_buffer (bs * 2) True]"
  using assms unfolding append_segment_def Let_def
  by (cases "int (length buf) + int (length (whisper_full_get_segment_text E c i)) + 2 > INT_MAX";
      cases "bs * 2 > INT_MAX";
      cases "int (length buf) + int (length (whisper_full_get_segment_text E c i)) + 2 > bs";
      cases "alloc_ok e Result_buffer (bs * 2)";
      cases "strcat bs buf (whisper_full_get_segment_text E c i)";
      cases "strcat (bs * 2) buf (whisper_full_get_segment_text E c i)";
      cases "i < n - 1";
      auto split: option.splits)

lemma realloc_failed_Nil: "\<not> realloc_failed []"
  by (simp add: realloc_failed_def)

lemma realloc_failed_Cons:
  "realloc_failed (x # xs) = ((\<exists>size. x = Realloc Result_buffer size False) \<or> realloc_failed xs)"
  by (auto simp: realloc_failed_def)

lemma realloc_failed_append:
  "realloc_failed (xs @ ys) = (realloc_failed xs \<or> realloc_failed ys)"
  by (auto simp: realloc_failed_def)

lemmas realloc_failed_simps = realloc_failed_Nil realloc_failed_Cons realloc_failed_append

lemma concat_segments_returns:
  assumes "concat_segments E e w c n i bs buf tr = Returns r w' t"
  shows "\<exists>s. r = Owned s \<and> w' = Some (w\<lparr>result_buffer := Some s\<rparr>)
           \<and> (realloc_failed t \<and> \<not> realloc_failed tr \<longrightarrow>
                s = ''Error: Failed to allocate memory for transcription''
                \<and> (\<exists>before size. t = before @ [Realloc Result_buffer size False, Free Result_buffer,
                       Strdup ''Error: Failed to allocate memory for transcription'']))"
  using assms
proof (induction E e w c n i bs buf tr rule: concat_segments.induct)
  case (1 E e w c n i bs buf tr)
  show ?case
  proof (cases "i < n")
    case False
    with "1.prems" show ?thesis by (auto simp: concat_segments_done)
  next
    case True
    show ?thesis
    proof (cases "append_segment E e w c n i bs buf tr")
      case (Inl out)
      then have "out = Returns r w' t"
        using "1.prems" True by (simp add: concat_segments_left)
      with append_segment_Inl [OF Inl] show ?thesis by auto
    next
      case (Inr next_state)
      obtain bs' buf' tr' where s: "next_state = (bs', buf', tr')"
        by (cases next_state)
      have step: "append_segment E e w c n i bs buf tr = Inr (bs', buf', tr')"
        using Inr s by simp
      have "concat_segments E e w c n (i + 1) bs' buf' tr' = Returns r w' t"
        using "1.prems" by (simp add: concat_segments_next [OF True step])
      note IH = "1.IH" [OF True Inr s [symmetric] refl this]
      have "realloc_failed tr' = realloc_failed tr"
        using append_segment_Inr [OF step] by (auto simp: realloc_failed_def)
      with IH show ?thesis by simp
    qed
  qed
qed

lemma collect_segments_returns:
  assumes "collect_segments E e w c [] = Returns r w' t"
  shows "w' = Some (w\<lparr>result_buffer := (case r of Owned s \<Rightarrow> Some s | Literal s \<Rightarrow> None)\<rparr>)
         \<and> (realloc_failed t \<longrightarrow>
              r = Owned ''Error: Failed to allocate memory for transcription''
              \<and> (\<exists>before size. t = before @ [Realloc Result_buffer size False, Free Result_buffer,
                     Strdup ''Error: Failed to allocate memory for transcription'']))"
proof (cases "whisper_full_n_segments E c \<le> 0")
  case True
  with assms show ?thesis
    by (auto simp: collect_segments_def Let_def realloc_failed_simps)
next
  case False
  show ?thesis
  proof (cases "alloc_ok e Result_buffer (1024 * 16)")
    case False
    with \<open>\<not> whisper_full_n_segments E c \<le> 0\<close> assms show ?thesis
      by (auto simp: collect_segments_def Let_def realloc_failed_simps)
  next
    case True
    let ?tr = "[Whisper_full_n_segments, Malloc Result_buffer (1024 * 16) True]"
    have "concat_segments E e w c (whisper_full_n_segments E c) 0 (1024 * 16) [] ?tr
            = Returns r w' t"
      using True \<open>\<not> whisper_full_n_segments E c \<le> 0\<close> assms
      by (simp add: collect_segments_def Let_def)
    from concat_segments_returns [OF this] show ?thesis
      by (auto simp: realloc_failed_simps)
  qed
qed

lemma prepend_events_Returns:
  "prepend_events tr0 out = Returns r w' tr \<longleftrightarrow>
     (\<exists>tr'. out = Returns r w' tr' \<and> tr = tr0 @ tr')"
  by (cases out) auto

lemma collect_segments_from:
  "collect_segments E e w c tr = prepend_events tr (collect_segments E e w c [])"
  using collect_segments_prepend [of E e w c tr "[]"] by simp

lemma transcribe_with_lang_unfold:
  assumes "ctx w = Some c"
    and "read_wav_file e path \<lparr>pcm = Null, samples = 0, sample_rate = 0\<rparr> = (ok, v, ev)"
    and "whisper_full E c (setup_params (whisper_full_default_params E) l) (pcm v) (samples v)
           = (status, c')"
  shows "whisper_wrapper_transcribe_with_lang E e (Some w) (Some path) l =
    (let tr = (case result_buffer w of None \<Rightarrow> [] | Some b \<Rightarrow> [Free Result_buffer]) @ ev in
     if \<not> ok then
       Returns (Owned ''Error: Failed to load audio file'')
         (Some (w\<lparr>result_buffer := Some ''Error: Failed to load audio file''\<rparr>))
         (tr @ [Strdup ''Error: Failed to load audio file''])
     else if status \<noteq> 0 then
       Returns (Owned ''Error: Failed to process audio with whisper'')
         (Some (w\<lparr>ctx := Some c',
                  result_buffer := Some ''Error: Failed to process audio with whisper''\<rparr>))
         (tr @ [Whisper_full (samples v), Free Pcm,
                Strdup ''Error: Failed to process audio with whisper''])
     else
       prepend_events (tr @ [Whisper_full (samples v), Free Pcm])
         (collect_segments E e (w\<lparr>result_buffer := None, ctx := Some c'\<rparr>) c' []))"
  using assms
  by (simp add: whisper_wrapper_transcribe_with_lang_def Let_def
      collect_segments_from [of _ _ _ _ "_ @ _"] collect_segments_from [of _ _ _ _ "_ # _"])

lemma transcribe_pcm_with_lang_unfold:
  assumes "ctx w = Some c" and "pcm_data \<noteq> Null" and "0 < n"
    and "whisper_full E c
           ((setup_params (whisper_full_default_params E) l)
              \<lparr>no_context := True, single_segment := True\<rparr>) pcm_data n = (status, c')"
  shows "whisper_wrapper_transcribe_pcm_with_lang E e (Some w) pcm_data n l =
    (let tr = (case result_buffer w of None \<Rightarrow> [] | Some b \<Rightarrow> [Free Result_buffer]) in
     if status \<noteq> 0 then
       Returns (Owned ''Error: Failed to process audio with whisper'')
         (Some (w\<lparr>ctx := Some c',
                  result_buffer := Some ''Error: Failed to process audio with whisper''\<rparr>))
         (tr @ [Whisper_full n, Strdup ''Error: Failed to process audio with whisper''])
     else
       prepend_events (tr @ [Whisper_full n])
         (collect_segments E e (w\<lparr>result_buffer := None, ctx := Some c'\<rparr>) c' []))"
  using assms
  by (simp add: whisper_wrapper_transcribe_pcm_with_lang_def Let_def
      collect_segments_from [of _ _ _ _ "_ @ _"] collect_segments_from [of _ _ _ _ "_ # _"])

subsection \<open>The result buffer\<close>

lemma transcribe_with_lang_shape:
  assumes "ctx w = Some c"
    and "whisper_wrapper_transcribe_with_lang E e (Some w) (Some path) l = Returns r w' tr"
  shows "\<exists>w''. w' = Some w''
           \<and> result_buffer w'' = (case r of Owned s \<Rightarrow> Some s | Literal s \<Rightarrow> None)"
proof -
  obtain ok v ev where decode:
    "read_wav_file e path \<lparr>pcm = Null, samples = 0, sample_rate = 0\<rparr> = (ok, v, ev)"
    by (cases "read_wav_file e path \<lparr>pcm = Null, samples = 0, sample_rate = 0\<rparr>")
  obtain status c' where inference:
    "whisper_full E c (setup_params (whisper_full_default_params E) l) (pcm v) (samples v)
       = (status, c')"
    by (cases "whisper_full E c (setup_params (whisper_full_default_params E) l) (pcm v) (samples v)")
  note run = assms(2) [unfolded transcribe_with_lang_unfold [OF assms(1) decode inference] Let_def]
  consider (load) "\<not> ok" | (process) "ok" "status \<noteq> 0" | (collect) "ok" "status = 0"
    by blast
  then show ?thesis
  proof cases
    case load
    with run show ?thesis by auto
  next
    case process
    with run show ?thesis by auto
  next
    case collect
    with run obtain t where
      "collect_segments E e (w\<lparr>result_buffer := None, ctx := Some c'\<rparr>) c' [] = Returns r w' t"
      by (auto simp: prepend_events_Returns)
    from collect_segments_returns [OF this] show ?thesis by simp
  qed
qed

lemma transcribe_pcm_with_lang_shape:
  assumes "ctx w = Some c" and "pcm_data \<noteq> Null" and "0 < n"
    and "whisper_wrapper_transcribe_pcm_with_lang E e (Some w) pcm_data n l = Returns r w' tr"
  shows "\<exists>w''. w' = Some w''
           \<and> result_buffer w'' = (case r of Owned s \<Rightarrow> Some s | Literal s \<Rightarrow> None)"
proof -
  obtain status c' where inference:
    "whisper_full E c
       ((setup_params (whisper_full_default_params E) l)\<lparr>no_context := True, single_segment := True\<rparr>)
       pcm_data n = (status, c')"
    by (cases "whisper_full E c
       ((setup_params (whisper_full_default_params E) l)\<lparr>no_context := True, single_segment := True\<rparr>)
       pcm_data n")
  note run = assms(4)
    [unfolded transcribe_pcm_with_lang_unfold [OF assms(1-3) inference] Let_def]
  show ?thesis
  proof (cases "status = 0")
    case False
    with run show ?thesis by auto
  next
    case True
    with run obtain t where
      "collect_segments E e (w\<lparr>result_buffer := None, ctx := Some c'\<rparr>) c' [] = Returns r w' t"
      by (auto simp: prepend_events_Returns)
    from collect_segments_returns [OF this] show ?thesis by simp
  qed
qed

text \<open>
  C3: a transcription call that passes the argument check and returns leaves in the
  handle's result buffer exactly the text it returned (nothing, when it returned a
  literal). If the handle held a previous result, the call's first event is the
  release of that result, and everything else (the value returned, the handle
  afterwards, the later events) is what the same call does on a handle with no
  previous result. When the decoder fails, the buffer holds
  \<^verbatim>\<open>"Error: Failed to load audio file"\<close>.
\<close>

theorem result_buffer_is_latest:
  assumes "ctx w = Some c"
  shows
    "(whisper_wrapper_transcribe_with_lang E e (Some w) (Some path) l = Returns r w' tr \<longrightarrow>
        (\<exists>w'' tr'. w' = Some w''
           \<and> result_buffer w'' = (case r of Owned s \<Rightarrow> Some s | Literal s \<Rightarrow> None)
           \<and> tr = (case result_buffer w of None \<Rightarrow> [] | Some old \<Rightarrow> [Free Result_buffer]) @ tr'
           \<and> whisper_wrapper_transcribe_with_lang E e (Some (w\<lparr>result_buffer := None\<rparr>))
                (Some path) l = Returns r w' tr'))
     \<and> (\<not> fst (read_wav_file e path \<lparr>pcm = Null, samples = 0, sample_rate = 0\<rparr>) \<longrightarrow>
        (\<exists>tr. whisper_wrapper_transcribe_with_lang E e (Some w) (Some path) l
           = Returns (Owned ''Error: Failed to load audio file'')
               (Some (w\<lparr>result_buffer := Some ''Error: Failed to load audio file''\<rparr>)) tr))
     \<and> (pcm_data \<noteq> Null \<and> 0 < n
         \<and> whisper_wrapper_transcribe_pcm_with_lang E e (Some w) pcm_data n l = Returns r w' tr \<longrightarrow>
        (\<exists>w'' tr'. w' = Some w''
           \<and> result_buffer w'' = (case r of Owned s \<Rightarrow> Some s | Literal s \<Rightarrow> None)
           \<and> tr = (case result_buffer w of None \<Rightarrow> [] | Some old \<Rightarrow> [Free Result_buffer]) @ tr'
           \<and> whisper_wrapper_transcribe_pcm_with_lang E e (Some (w\<lparr>result_buffer := None\<rparr>))
                pcm_data n l = Returns r w' tr'))"
proof (intro conjI impI)
  assume run: "whisper_wrapper_transcribe_with_lang E e (Some w) (Some path) l = Returns r w' tr"
  from transcribe_with_lang_shape [OF assms run] obtain w'' where
    "w' = Some w''" "result_buffer w'' = (case r of Owned s \<Rightarrow> Some s | Literal s \<Rightarrow> None)"
    by blast
  moreover from run obtain tr' where
    "whisper_wrapper_transcribe_with_lang E e (Some (w\<lparr>result_buffer := None\<rparr>)) (Some path) l
       = Returns r w' tr'"
    "tr = (case result_buffer w of None \<Rightarrow> [] | Some old \<Rightarrow> [Free Result_buffer]) @ tr'"
    unfolding transcribe_with_lang_frees_first [OF assms, of E e path l] prepend_events_Returns
    by blast
  ultimately show "\<exists>w'' tr'. w' = Some w''
      \<and> result_buffer w'' = (case r of Owned s \<Rightarrow> Some s | Literal s \<Rightarrow> None)
      \<and> tr = (case result_buffer w of None \<Rightarrow> [] | Some old \<Rightarrow> [Free Result_buffer]) @ tr'
      \<and> whisper_wrapper_transcribe_with_lang E e (Some (w\<lparr>result_buffer := None\<rparr>))
           (Some path) l = Returns r w' tr'"
    by blast
next
  assume failed: "\<not> fst (read_wav_file e path \<lparr>pcm = Null, samples = 0, sample_rate = 0\<rparr>)"
  obtain ok v ev where decode:
    "read_wav_file e path \<lparr>pcm = Null, samples = 0, sample_rate = 0\<rparr> = (ok, v, ev)"
    by (cases "read_wav_file e path \<lparr>pcm = Null, samples = 0, sample_rate = 0\<rparr>")
  obtain status c' where inference:
    "whisper_full E c (setup_params (whisper_full_default_params E) l) (pcm v) (samples v)
       = (status, c')"
    by (cases "whisper_full E c (setup_params (whisper_full_default_params E) l) (pcm v) (samples v)")
  from failed decode have "\<not> ok" by simp
  then show "\<exists>tr. whisper_wrapper_transcribe_with_lang E e (Some w) (Some path) l
      = Returns (Owned ''Error: Failed to load audio file'')
          (Some (w\<lparr>result_buffer := Some ''Error: Failed to load audio file''\<rparr>)) tr"
    by (simp add: transcribe_with_lang_unfold [OF assms decode inference] Let_def)
next
  assume "pcm_data \<noteq> Null \<and> 0 < n
    \<and> whisper_wrapper_transcribe_pcm_with_lang E e (Some w) pcm_data n l = Returns r w' tr"
  then have valid: "pcm_data \<noteq> Null" "0 < n"
    and run: "whisper_wrapper_transcribe_pcm_with_lang E e (Some w) pcm_data n l = Returns r w' tr"
    by simp_all
  from transcribe_pcm_with_lang_shape [OF assms valid run] obtain w'' where
    "w' = Some w''" "result_buffer w'' = (case r of Owned s \<Rightarrow> Some s | Literal s \<Rightarrow> None)"
    by blast
  moreover from run obtain tr' where
    "whisper_wrapper_transcribe_pcm_with_lang E e (Some (w\<lparr>result_buffer := None\<rparr>)) pcm_data n l
       = Returns r w' tr'"
    "tr = (case result_buffer w of None \<Rightarrow> [] | Some old \<Rightarrow> [Free Result_buffer]) @ tr'"
    unfolding transcribe_pcm_with_lang_frees_first [OF assms valid, of E e l] prepend_events_Returns
    by blast
  ultimately show "\<exists>w'' tr'. w' = Some w''
      \<and> result_buffer w'' = (case r of Owned s \<Rightarrow> Some s | Literal s \<Rightarrow> None)
      \<and> tr = (case result_buffer w of None \<Rightarrow> [] | Some old \<Rightarrow> [Free Result_buffer]) @ tr'
      \<and> whisper_wrapper_transcribe_pcm_with_lang E e (Some (w\<lparr>result_buffer := None\<rparr>))
           pcm_data n l = Returns r w' tr'"
    by blast
qed

lemma run_corrupt:
  "whisper_wrapper_transcribe_with_lang (stub_engine 0 [''hello'']) (stub_env (Some [82, 73, 70]) 100000)
     (Some (loaded_handle old)) (Some ''a.wav'') True
   = Returns (Owned ''Error: Failed to load audio file'')
       (Some \<lparr>ctx = Some [], result_buffer = Some ''Error: Failed to load audio file''\<rparr>)
       ((case old of None \<Rightarrow> [] | Some b \<Rightarrow> [Free Result_buffer])
        @ [Fopen ''a.wav'' True, Fread 44 False, Fclose, Strdup ''Error: Failed to load audio file''])"
  by (simp add: whisper_wrapper_transcribe_with_lang_def read_wav_file_def stub_env_def
      loaded_handle_def Let_def)

lemma run_pcm_hello:
  "whisper_wrapper_transcribe_pcm_with_lang (stub_engine 0 [''hello'', ''world'']) (stub_env None 100000)
     (Some (loaded_handle old)) (Floats [0]) 1 True
   = Returns (Owned ''hello world'')
       (Some \<lparr>ctx = Some [''hello'', ''world''], result_buffer = Some ''hello world''\<rparr>)
       ((case old of None \<Rightarrow> [] | Some b \<Rightarrow> [Free Result_buffer])
        @ [Whisper_full 1, Whisper_full_n_segments, Malloc Result_buffer 16384 True,
           Whisper_full_get_segment_text 0, Whisper_full_get_segment_text 1])"
  by (simp add: whisper_wrapper_transcribe_pcm_with_lang_def collect_segments_def
      concat_segments.simps append_segment_def strcat_def INT_MAX_def stub_engine_def stub_env_def
      loaded_handle_def Let_def)

theorem result_buffer_is_latest_witness:
  "(\<exists>w'' tr'.
      Some \<lparr>ctx = Some ([] :: string list),
            result_buffer = Some ''Error: Failed to load audio file''\<rparr> = Some w''
      \<and> result_buffer w'' = Some ''Error: Failed to load audio file''
      \<and> [Free Result_buffer, Fopen ''a.wav'' True, Fread 44 False, Fclose,
          Strdup ''Error: Failed to load audio file''] = [Free Result_buffer] @ tr'
      \<and> whisper_wrapper_transcribe_with_lang (stub_engine 0 [''hello''])
           (stub_env (Some [82, 73, 70]) 100000) (Some (loaded_handle None)) (Some ''a.wav'') True
         = Returns (Owned ''Error: Failed to load audio file'')
             (Some \<lparr>ctx = Some [], result_buffer = Some ''Error: Failed to load audio file''\<rparr>)
             tr')
   \<and> (\<exists>w'' tr'.
      Some \<lparr>ctx = Some [''hello'', ''world''], result_buffer = Some ''hello world''\<rparr> = Some w''
      \<and> result_buffer w'' = Some ''hello world''
      \<and> [Free Result_buffer, Whisper_full 1, Whisper_full_n_segments,
          Malloc Result_buffer 16384 True, Whisper_full_get_segment_text 0,
          Whisper_full_get_segment_text 1] = [Free Result_buffer] @ tr'
      \<and> whisper_wrapper_transcribe_pcm_with_lang (stub_engine 0 [''hello'', ''world''])
           (stub_env None 100000) (Some (loaded_handle None)) (Floats [0]) 1 True
         = Returns (Owned ''hello world'')
             (Some \<lparr>ctx = Some [''hello'', ''world''], result_buffer = Some ''hello world''\<rparr>)
             tr')"
proof -
  have loaded: "ctx (loaded_handle (Some ''old'')) = Some []"
    by (simp add: loaded_handle_def)
  have emptied: "(loaded_handle (Some ''old''))\<lparr>result_buffer := None\<rparr> = loaded_handle None"
    by (simp add: loaded_handle_def)
  show ?thesis
    using result_buffer_is_latest [OF loaded,
        where E = "stub_engine 0 [''hello'']" and e = "stub_env (Some [82, 73, 70]) 100000"
          and path = "''a.wav''" and l = True,
        THEN conjunct1, rule_format, OF run_corrupt [of "Some ''old''", simplified]]
      result_buffer_is_latest [OF loaded,
        where E = "stub_engine 0 [''hello'', ''world'']" and e = "stub_env None 100000"
          and pcm_data = "Floats [0]" and n = 1 and l = True,
        THEN conjunct2, THEN conjunct2, rule_format,
        OF conjI [OF _ conjI [OF _ run_pcm_hello [of "Some ''old''", simplified]]]]
    by (simp add: emptied loaded_handle_def)
qed

subsection \<open>Failures after the engine has been called\<close>

lemma capacity_ge: "16384 \<le> capacity E c k"
  by (induction k) auto

lemma capacity_mono: "j \<le> k \<Longrightarrow> capacity E c j \<le> capacity E c k"
proof (induction k)
  case 0
  then show ?case by simp
next
  case (Suc k)
  have "capacity E c k \<le> capacity E c (Suc k)"
    using capacity_ge [of E c k] by simp
  with Suc show ?case
    by (cases "j = Suc k") auto
qed

lemma text_before_Suc:
  "text_before E c (Suc k) = text_before E c k @ whisper_full_get_segment_text E c (int k) @ '' ''"
  by (simp add: text_before_def)

lemma append_segment_refused:
  assumes "bs < int (length buf) + int (length (whisper_full_get_segment_text E c i)) + 2"
    and "int (length buf) + int (length (whisper_full_get_segment_text E c i)) + 2 \<le> INT_MAX"
    and "bs * 2 \<le> INT_MAX"
    and "\<not> alloc_ok e Result_buffer (bs * 2)"
  shows "append_segment E e w c n i bs buf tr =
           Inl (Returns (Owned ''Error: Failed to allocate memory for transcription'')
                  (Some (w\<lparr>result_buffer :=
                             Some ''Error: Failed to allocate memory for transcription''\<rparr>))
                  (tr @ [Whisper_full_get_segment_text i,
                         Realloc Result_buffer (bs * 2) False, Free Result_buffer,
                         Strdup ''Error: Failed to allocate memory for transcription'']))"
  using assms by (simp add: append_segment_def Let_def)

lemma append_segment_granted:
  assumes "i < n - 1"
    and "int (length buf) + int (length (whisper_full_get_segment_text E c i)) + 2 \<le> bs'"
    and "bs' \<le> INT_MAX"
    and "bs' = (if bs < int (length buf) + int (length (whisper_full_get_segment_text E c i)) + 2
                then bs * 2 else bs)"
    and "bs < int (length buf) + int (length (whisper_full_get_segment_text E c i)) + 2
           \<longrightarrow> alloc_ok e Result_buffer (bs * 2)"
  shows "\<exists>tr'. append_segment E e w c n i bs buf tr =
           Inr (bs', buf @ whisper_full_get_segment_text E c i @ '' '', tr @ tr')"
  using assms unfolding append_segment_def Let_def strcat_def
  by (cases "bs < int (length buf) + int (length (whisper_full_get_segment_text E c i)) + 2")
     simp_all


lemma concat_segments_refused:
  assumes last: "int k < n"
    and earlier: "\<forall>j\<in>{0..<k}. needed E c j \<le> capacity E c (Suc j)
           \<and> (capacity E c j < needed E c j \<longrightarrow> alloc_ok e Result_buffer (capacity E c j * 2))"
    and grow: "capacity E c k < needed E c k"
    and bounds: "needed E c k \<le> INT_MAX" "capacity E c k * 2 \<le> INT_MAX"
    and refused: "\<not> alloc_ok e Result_buffer (capacity E c k * 2)"
    and "j \<le> k"
  shows "\<exists>before. concat_segments E e w c n (int j) (capacity E c j) (text_before E c j) tr =
           Returns (Owned ''Error: Failed to allocate memory for transcription'')
             (Some (w\<lparr>result_buffer :=
                        Some ''Error: Failed to allocate memory for transcription''\<rparr>))
             (tr @ before @ [Realloc Result_buffer (capacity E c k * 2) False, Free Result_buffer,
                             Strdup ''Error: Failed to allocate memory for transcription''])"
  using \<open>j \<le> k\<close>
proof (induction "k - j" arbitrary: j tr)
  case 0
  then have "j = k" by simp
  have "append_segment E e w c n (int k) (capacity E c k) (text_before E c k) tr =
          Inl (Returns (Owned ''Error: Failed to allocate memory for transcription'')
                 (Some (w\<lparr>result_buffer :=
                            Some ''Error: Failed to allocate memory for transcription''\<rparr>))
                 (tr @ [Whisper_full_get_segment_text (int k),
                        Realloc Result_buffer (capacity E c k * 2) False, Free Result_buffer,
                        Strdup ''Error: Failed to allocate memory for transcription'']))"
    using grow bounds(1) by (intro append_segment_refused bounds(2) refused) (simp_all add: needed_def)
  from concat_segments_left [OF last this] show ?case
    unfolding \<open>j = k\<close> by (intro exI [of _ "[Whisper_full_get_segment_text (int k)]"]) simp
next
  case (Suc d)
  then have "j < k" and later: "d = k - Suc j" "Suc j \<le> k"
    by simp_all
  let ?seg = "whisper_full_get_segment_text E c (int j)"
  have inner: "int j < n - 1" and inside: "int j < n"
    using \<open>j < k\<close> last by simp_all
  have fits: "needed E c j \<le> capacity E c (Suc j)"
    and granted: "capacity E c j < needed E c j \<longrightarrow> alloc_ok e Result_buffer (capacity E c j * 2)"
    using earlier \<open>j < k\<close> by simp_all
  have "capacity E c (Suc j) \<le> capacity E c k"
    using later(2) by (rule capacity_mono)
  also have "\<dots> \<le> capacity E c k * 2"
    using capacity_ge [of E c k] by simp
  finally have small: "capacity E c (Suc j) \<le> INT_MAX"
    using bounds(2) by simp
  have "\<exists>tr'. append_segment E e w c n (int j) (capacity E c j) (text_before E c j) tr =
           Inr (capacity E c (Suc j), text_before E c j @ ?seg @ '' '', tr @ tr')"
    using inner fits small granted
    by (intro append_segment_granted) (simp_all add: needed_def)
  then obtain tr' where
    step: "append_segment E e w c n (int j) (capacity E c j) (text_before E c j) tr =
             Inr (capacity E c (Suc j), text_before E c (Suc j), tr @ tr')"
    by (auto simp: text_before_Suc)
  from Suc.hyps(1) [OF later, of "tr @ tr'"] obtain before where
    "concat_segments E e w c n (int (Suc j)) (capacity E c (Suc j)) (text_before E c (Suc j))
       (tr @ tr') =
     Returns (Owned ''Error: Failed to allocate memory for transcription'')
       (Some (w\<lparr>result_buffer := Some ''Error: Failed to allocate memory for transcription''\<rparr>))
       ((tr @ tr') @ before @ [Realloc Result_buffer (capacity E c k * 2) False, Free Result_buffer,
                       Strdup ''Error: Failed to allocate memory for transcription''])"
    by blast
  moreover have "int (Suc j) = int j + 1"
    by simp
  ultimately have "concat_segments E e w c n (int j) (capacity E c j) (text_before E c j) tr =
     Returns (Owned ''Error: Failed to allocate memory for transcription'')
       (Some (w\<lparr>result_buffer := Some ''Error: Failed to allocate memory for transcription''\<rparr>))
       (tr @ (tr' @ before) @ [Realloc Result_buffer (capacity E c k * 2) False, Free Result_buffer,
                       Strdup ''Error: Failed to allocate memory for transcription''])"
    by (simp only: concat_segments_next [OF inside step] append_assoc)
  then show ?case by blast
qed

lemma collect_segments_refused:
  assumes "growth_refused E e c k"
  shows "\<exists>before. collect_segments E e w c tr =
           Returns (Owned ''Error: Failed to allocate memory for transcription'')
             (Some (w\<lparr>result_buffer :=
                        Some ''Error: Failed to allocate memory for transcription''\<rparr>))
             (tr @ before @ [Realloc Result_buffer (capacity E c k * 2) False, Free Result_buffer,
                             Strdup ''Error: Failed to allocate memory for transcription''])"
proof -
  let ?n = "whisper_full_n_segments E c"
  let ?tr = "tr @ [Whisper_full_n_segments, Malloc Result_buffer (1024 * 16) True]"
  have last: "int k < ?n" and first: "alloc_ok e Result_buffer (1024 * 16)"
    and earlier: "\<forall>j\<in>{0..<k}. needed E c j \<le> capacity E c (Suc j)
           \<and> (capacity E c j < needed E c j \<longrightarrow> alloc_ok e Result_buffer (capacity E c j * 2))"
    and grow: "capacity E c k < needed E c k"
    and bounds: "needed E c k \<le> INT_MAX" "capacity E c k * 2 \<le> INT_MAX"
    and refused: "\<not> alloc_ok e Result_buffer (capacity E c k * 2)"
    using assms unfolding growth_refused_def by blast+
  from concat_segments_refused [OF last earlier grow bounds refused le0, where w = w and tr = ?tr]
  obtain before where
    "concat_segments E e w c ?n 0 (1024 * 16) [] ?tr =
       Returns (Owned ''Error: Failed to allocate memory for transcription'')
         (Some (w\<lparr>result_buffer := Some ''Error: Failed to allocate memory for transcription''\<rparr>))
         (?tr @ before @ [Realloc Result_buffer (capacity E c k * 2) False, Free Result_buffer,
                          Strdup ''Error: Failed to allocate memory for transcription''])"
    by (auto simp: text_before_def)
  moreover have "\<not> ?n \<le> 0"
    using last by simp
  ultimately have "collect_segments E e w c tr =
       Returns (Owned ''Error: Failed to allocate memory for transcription'')
         (Some (w\<lparr>result_buffer := Some ''Error: Failed to allocate memory for transcription''\<rparr>))
         (tr @ ([Whisper_full_n_segments, Malloc Result_buffer (1024 * 16) True] @ before)
            @ [Realloc Result_buffer (capacity E c k * 2) False, Free Result_buffer,
               Strdup ''Error: Failed to allocate memory for transcription''])"
    using first by (simp add: collect_segments_def Let_def)
  then show ?thesis by blast
qed

text \<open>
  C8: once the arguments are valid (and, for a file, it has been decoded) the engine is
  called. If inference returns nonzero the call returns
  \<^verbatim>\<open>"Error: Failed to process audio with whisper"\<close>; if it returns zero and the engine
  reports no segment, \<^verbatim>\<open>"No speech detected"\<close>. If some pass of the loop needs a larger
  result buffer and the request is refused (\<open>growth_refused\<close>: whichever pass it is,
  and however often the buffer has been doubled before), the text built so far is
  released with the buffer and the call returns
  \<^verbatim>\<open>"Error: Failed to allocate memory for transcription"\<close>, which is also what the
  handle then holds; the same text is returned, as a literal, when the first
  allocation of the buffer is refused. On each of these paths of the file variant the
  decoded samples are released. The last part is the loop body by itself: from any
  state, a pass that needs more room than \<^verbatim>\<open>buffer_size\<close> and is refused twice that
  size leaves the function with the sentinel.
\<close>

theorem engine_outcomes:
  "(ctx w = Some c
      \<and> read_wav_file e path \<lparr>pcm = Null, samples = 0, sample_rate = 0\<rparr> = (True, v, ev)
      \<and> whisper_full E c (setup_params (whisper_full_default_params E) l) (pcm v) (samples v)
          = (status, c') \<longrightarrow>
      (status \<noteq> 0 \<longrightarrow>
         (\<exists>tr. whisper_wrapper_transcribe_with_lang E e (Some w) (Some path) l
            = Returns (Owned ''Error: Failed to process audio with whisper'')
                (Some (w\<lparr>ctx := Some c',
                         result_buffer := Some ''Error: Failed to process audio with whisper''\<rparr>))
                tr
            \<and> Free Pcm \<in> set tr))
      \<and> (status = 0 \<and> whisper_full_n_segments E c' \<le> 0 \<longrightarrow>
         (\<exists>tr. whisper_wrapper_transcribe_with_lang E e (Some w) (Some path) l
            = Returns (Owned ''No speech detected'')
                (Some (w\<lparr>ctx := Some c', result_buffer := Some ''No speech detected''\<rparr>)) tr
            \<and> Free Pcm \<in> set tr))
      \<and> (status = 0 \<and> growth_refused E e c' k \<longrightarrow>
         (\<exists>before. whisper_wrapper_transcribe_with_lang E e (Some w) (Some path) l
            = Returns (Owned ''Error: Failed to allocate memory for transcription'')
                (Some (w\<lparr>ctx := Some c',
                         result_buffer :=
                           Some ''Error: Failed to allocate memory for transcription''\<rparr>))
                (before @ [Realloc Result_buffer (capacity E c' k * 2) False, Free Result_buffer,
                           Strdup ''Error: Failed to allocate memory for transcription''])
            \<and> Free Pcm \<in> set before))
      \<and> (status = 0 \<and> 0 < whisper_full_n_segments E c' \<and> \<not> alloc_ok e Result_buffer 16384 \<longrightarrow>
         (\<exists>tr. whisper_wrapper_transcribe_with_lang E e (Some w) (Some path) l
            = Returns (Literal ''Error: Failed to allocate memory for transcription'')
                (Some (w\<lparr>ctx := Some c', result_buffer := None\<rparr>)) tr
            \<and> Free Pcm \<in> set tr)))
   \<and> (ctx w = Some c \<and> pcm_data \<noteq> Null \<and> 0 < n
      \<and> whisper_full E c
           ((setup_params (whisper_full_default_params E) l)
              \<lparr>no_context := True, single_segment := True\<rparr>) pcm_data n = (status, c') \<longrightarrow>
      (status \<noteq> 0 \<longrightarrow>
         (\<exists>tr. whisper_wrapper_transcribe_pcm_with_lang E e (Some w) pcm_data n l
            = Returns (Owned ''Error: Failed to process audio with whisper'')
                (Some (w\<lparr>ctx := Some c',
                         result_buffer := Some ''Error: Failed to process audio with whisper''\<rparr>))
                tr))
      \<and> (status = 0 \<and> whisper_full_n_segments E c' \<le> 0 \<longrightarrow>
         (\<exists>tr. whisper_wrapper_transcribe_pcm_with_lang E e (Some w) pcm_data n l
            = Returns (Owned ''No speech detected'')
                (Some (w\<lparr>ctx := Some c', result_buffer := Some ''No speech detected''\<rparr>)) tr))
      \<and> (status = 0 \<and> growth_refused E e c' k \<longrightarrow>
         (\<exists>before. whisper_wrapper_transcribe_pcm_with_lang E e (Some w) pcm_data n l
            = Returns (Owned ''Error: Failed to allocate memory for transcription'')
                (Some (w\<lparr>ctx := Some c',
                         result_buffer :=
                           Some ''Error: Failed to allocate memory for transcription''\<rparr>))
                (before @ [Realloc Result_buffer (capacity E c' k * 2) False, Free Result_buffer,
                           Strdup ''Error: Failed to allocate memory for transcription''])))
      \<and> (status = 0 \<and> 0 < whisper_full_n_segments E c' \<and> \<not> alloc_ok e Result_buffer 16384 \<longrightarrow>
         (\<exists>tr. whisper_wrapper_transcribe_pcm_with_lang E e (Some w) pcm_data n l
            = Returns (Literal ''Error: Failed to allocate memory for transcription'')
                (Some (w\<lparr>ctx := Some c', result_buffer := None\<rparr>)) tr)))
   \<and> (buffer_size < int (length buf) + int (length (whisper_full_get_segment_text E c i)) + 2
      \<and> int (length buf) + int (length (whisper_full_get_segment_text E c i)) + 2 \<le> INT_MAX
      \<and> buffer_size * 2 \<le> INT_MAX
      \<and> \<not> alloc_ok e Result_buffer (buffer_size * 2) \<longrightarrow>
      append_segment E e w c n_segments i buffer_size buf tr =
        Inl (Returns (Owned ''Error: Failed to allocate memory for transcription'')
               (Some (w\<lparr>result_buffer :=
                          Some ''Error: Failed to allocate memory for transcription''\<rparr>))
               (tr @ [Whisper_full_get_segment_text i,
                      Realloc Result_buffer (buffer_size * 2) False, Free Result_buffer,
                      Strdup ''Error: Failed to allocate memory for transcription''])))"
proof (intro conjI impI; (elim conjE)?)
  assume loaded: "ctx w = Some c"
    and decode: "read_wav_file e path \<lparr>pcm = Null, samples = 0, sample_rate = 0\<rparr> = (True, v, ev)"
    and inference:
      "whisper_full E c (setup_params (whisper_full_default_params E) l) (pcm v) (samples v)
         = (status, c')"
  note unfold = transcribe_with_lang_unfold [OF loaded decode inference, unfolded Let_def]
  {
    assume "status \<noteq> 0"
    then show "\<exists>tr. whisper_wrapper_transcribe_with_lang E e (Some w) (Some path) l
        = Returns (Owned ''Error: Failed to process audio with whisper'')
            (Some (w\<lparr>ctx := Some c',
                     result_buffer := Some ''Error: Failed to process audio with whisper''\<rparr>))
            tr
        \<and> Free Pcm \<in> set tr"
      by (simp add: unfold)
  next
    assume "status = 0" and "whisper_full_n_segments E c' \<le> 0"
    then show "\<exists>tr. whisper_wrapper_transcribe_with_lang E e (Some w) (Some path) l
        = Returns (Owned ''No speech detected'')
            (Some (w\<lparr>ctx := Some c', result_buffer := Some ''No speech detected''\<rparr>)) tr
        \<and> Free Pcm \<in> set tr"
      by (simp add: unfold collect_segments_def Let_def)
  next
    assume "status = 0" and refused: "growth_refused E e c' k"
    from collect_segments_refused [OF refused, of "w\<lparr>result_buffer := None, ctx := Some c'\<rparr>" "[]"]
    obtain before where
      "collect_segments E e (w\<lparr>result_buffer := None, ctx := Some c'\<rparr>) c' [] =
         Returns (Owned ''Error: Failed to allocate memory for transcription'')
           (Some (w\<lparr>result_buffer := None, ctx := Some c'\<rparr>
                   \<lparr>result_buffer := Some ''Error: Failed to allocate memory for transcription''\<rparr>))
           (before @ [Realloc Result_buffer (capacity E c' k * 2) False, Free Result_buffer,
                      Strdup ''Error: Failed to allocate memory for transcription''])"
      by auto
    with \<open>status = 0\<close>
    show "\<exists>before. whisper_wrapper_transcribe_with_lang E e (Some w) (Some path) l
        = Returns (Owned ''Error: Failed to allocate memory for transcription'')
            (Some (w\<lparr>ctx := Some c',
                     result_buffer := Some ''Error: Failed to allocate memory for transcription''\<rparr>))
            (before @ [Realloc Result_buffer (capacity E c' k * 2) False, Free Result_buffer,
                       Strdup ''Error: Failed to allocate memory for transcription''])
        \<and> Free Pcm \<in> set before"
      by (intro exI [of _ "((case result_buffer w of None \<Rightarrow> [] | Some b \<Rightarrow> [Free Result_buffer])
                             @ ev) @ [Whisper_full (samples v), Free Pcm] @ before"])
         (simp add: unfold)
  next
    assume "status = 0" and "0 < whisper_full_n_segments E c'"
      and "\<not> alloc_ok e Result_buffer 16384"
    then show "\<exists>tr. whisper_wrapper_transcribe_with_lang E e (Some w) (Some path) l
        = Returns (Literal ''Error: Failed to allocate memory for transcription'')
            (Some (w\<lparr>ctx := Some c', result_buffer := None\<rparr>)) tr
        \<and> Free Pcm \<in> set tr"
      by (simp add: unfold collect_segments_def Let_def)
  }
next
  assume loaded: "ctx w = Some c" and valid: "pcm_data \<noteq> Null" "0 < n"
    and inference:
      "whisper_full E c
         ((setup_params (whisper_full_default_params E) l)
            \<lparr>no_context := True, single_segment := True\<rparr>) pcm_data n = (status, c')"
  note unfold =
    transcribe_pcm_with_lang_unfold [OF loaded valid inference, where e = e, unfolded Let_def]
  {
    assume "status \<noteq> 0"
    then show "\<exists>tr. whisper_wrapper_transcribe_pcm_with_lang E e (Some w) pcm_data n l
        = Returns (Owned ''Error: Failed to process audio with whisper'')
            (Some (w\<lparr>ctx := Some c',
                     result_buffer := Some ''Error: Failed to process audio with whisper''\<rparr>))
            tr"
      by (simp add: unfold)
  next
    assume "status = 0" and "whisper_full_n_segments E c' \<le> 0"
    then show "\<exists>tr. whisper_wrapper_transcribe_pcm_with_lang E e (Some w) pcm_data n l
        = Returns (Owned ''No speech detected'')
            (Some (w\<lparr>ctx := Some c', result_buffer := Some ''No speech detected''\<rparr>)) tr"
      by (simp add: unfold collect_segments_def Let_def)
  next
    assume "status = 0" and refused: "growth_refused E e c' k"
    from collect_segments_refused [OF refused, of "w\<lparr>result_buffer := None, ctx := Some c'\<rparr>" "[]"]
    obtain before where
      "collect_segments E e (w\<lparr>result_buffer := None, ctx := Some c'\<rparr>) c' [] =
         Returns (Owned ''Error: Failed to allocate memory for transcription'')
           (Some (w\<lparr>result_buffer := None, ctx := Some c'\<rparr>
                   \<lparr>result_buffer := Some ''Error: Failed to allocate memory for transcription''\<rparr>))
           (before @ [Realloc Result_buffer (capacity E c' k * 2) False, Free Result_buffer,
                      Strdup ''Error: Failed to allocate memory for transcription''])"
      by auto
    with \<open>status = 0\<close>
    show "\<exists>before. whisper_wrapper_transcribe_pcm_with_lang E e (Some w) pcm_data n l
        = Returns (Owned ''Error: Failed to allocate memory for transcription'')
            (Some (w\<lparr>ctx := Some c',
                     result_buffer := Some ''Error: Failed to allocate memory for transcription''\<rparr>))
            (before @ [Realloc Result_buffer (capacity E c' k * 2) False, Free Result_buffer,
                       Strdup ''Error: Failed to allocate memory for transcription''])"
      by (intro exI [of _ "((case result_buffer w of None \<Rightarrow> [] | Some b \<Rightarrow> [Free Result_buffer])
                             @ [Whisper_full n]) @ before"])
         (simp add: unfold)
  next
    assume "status = 0" and "0 < whisper_full_n_segments E c'"
      and "\<not> alloc_ok e Result_buffer 16384"
    then show "\<exists>tr. whisper_wrapper_transcribe_pcm_with_lang E e (Some w) pcm_data n l
        = Returns (Literal ''Error: Failed to allocate memory for transcription'')
            (Some (w\<lparr>ctx := Some c', result_buffer := None\<rparr>)) tr"
      by (simp add: unfold collect_segments_def Let_def)
  }
next
  assume "buffer_size < int (length buf) + int (length (whisper_full_get_segment_text E c i)) + 2"
    and "int (length buf) + int (length (whisper_full_get_segment_text E c i)) + 2 \<le> INT_MAX"
    and "buffer_size * 2 \<le> INT_MAX"
    and "\<not> alloc_ok e Result_buffer (buffer_size * 2)"
  then show "append_segment E e w c n_segments i buffer_size buf tr =
      Inl (Returns (Owned ''Error: Failed to allocate memory for transcription'')
             (Some (w\<lparr>result_buffer :=
                        Some ''Error: Failed to allocate memory for transcription''\<rparr>))
             (tr @ [Whisper_full_get_segment_text i,
                    Realloc Result_buffer (buffer_size * 2) False, Free Result_buffer,
                    Strdup ''Error: Failed to allocate memory for transcription'']))"
    by (rule append_segment_refused)
qed


theorem engine_outcomes_witness:
  "(\<exists>tr. whisper_wrapper_transcribe_with_lang (stub_engine 1 []) (stub_env (Some stereo16) 20000)
           (Some (loaded_handle None)) (Some ''a.wav'') True
         = Returns (Owned ''Error: Failed to process audio with whisper'')
             (Some \<lparr>ctx = Some [],
                    result_buffer = Some ''Error: Failed to process audio with whisper''\<rparr>) tr
         \<and> Free Pcm \<in> set tr)
   \<and> (\<exists>tr. whisper_wrapper_transcribe_with_lang (stub_engine 0 []) (stub_env (Some stereo16) 20000)
           (Some (loaded_handle None)) (Some ''a.wav'') True
         = Returns (Owned ''No speech detected'')
             (Some \<lparr>ctx = Some [], result_buffer = Some ''No speech detected''\<rparr>) tr
         \<and> Free Pcm \<in> set tr)
   \<and> (\<exists>before. whisper_wrapper_transcribe_with_lang (stub_engine 0 [replicate 16383 CHR ''a''])
           (stub_env (Some stereo16) 20000) (Some (loaded_handle None)) (Some ''a.wav'') True
         = Returns (Owned ''Error: Failed to allocate memory for transcription'')
             (Some \<lparr>ctx = Some [replicate 16383 CHR ''a''],
                    result_buffer = Some ''Error: Failed to allocate memory for transcription''\<rparr>)
             (before @ [Realloc Result_buffer 32768 False, Free Result_buffer,
                        Strdup ''Error: Failed to allocate memory for transcription''])
         \<and> Free Pcm \<in> set before)
   \<and> (\<exists>tr. whisper_wrapper_transcribe_pcm_with_lang (stub_engine 1 []) (stub_env None 40000)
           (Some (loaded_handle None)) (Floats [0]) 1 True
         = Returns (Owned ''Error: Failed to process audio with whisper'')
             (Some \<lparr>ctx = Some [],
                    result_buffer = Some ''Error: Failed to process audio with whisper''\<rparr>) tr)
   \<and> (\<exists>before. whisper_wrapper_transcribe_pcm_with_lang
           (stub_engine 0 [replicate 20000 CHR ''a'', replicate 20000 CHR ''b''])
           (stub_env None 40000) (Some (loaded_handle None)) (Floats [0]) 1 True
         = Returns (Owned ''Error: Failed to allocate memory for transcription'')
             (Some \<lparr>ctx = Some [replicate 20000 CHR ''a'', replicate 20000 CHR ''b''],
                    result_buffer = Some ''Error: Failed to allocate memory for transcription''\<rparr>)
             (before @ [Realloc Result_buffer 65536 False, Free Result_buffer,
                        Strdup ''Error: Failed to allocate memory for transcription'']))
   \<and> append_segment (stub_engine 0 [''hello'']) (stub_env None 7) (loaded_handle None) [''hello'']
        1 0 4 ''ab'' []
      = Inl (Returns (Owned ''Error: Failed to allocate memory for transcription'')
               (Some \<lparr>ctx = Some [],
                      result_buffer = Some ''Error: Failed to allocate memory for transcription''\<rparr>)
               [Whisper_full_get_segment_text 0, Realloc Result_buffer 8 False, Free Result_buffer,
                Strdup ''Error: Failed to allocate memory for transcription''])"
proof -
  let ?e = "stub_env (Some stereo16) 20000"
  let ?v = "\<lparr>pcm = Floats [0, - 1 / 65536], samples = 2, sample_rate = 16000\<rparr>"
  let ?ev = "[Fopen ''a.wav'' True, Fread 44 True, Malloc Pcm 8 True, Malloc Wav_data 8 True,
              Fread 8 True, Free Wav_data, Fclose]"
  let ?long = "[replicate 16383 CHR ''a'']"
  let ?two = "[replicate 20000 CHR ''a'', replicate 20000 CHR ''b'']"
  have loaded: "ctx (loaded_handle None) = Some ([] :: string list)"
    by (simp add: loaded_handle_def)
  have decode: "read_wav_file ?e ''a.wav'' \<lparr>pcm = Null, samples = 0, sample_rate = 0\<rparr>
                  = (True, ?v, ?ev)"
    by (simp add: decode_stereo16)
  have inference:
    "whisper_full (stub_engine status segments) []
       (setup_params (whisper_full_default_params (stub_engine status segments)) True)
       (pcm ?v) (samples ?v) = (status, segments)" for status segments
    by (simp add: stub_engine_def)
  have inference_pcm:
    "whisper_full (stub_engine status segments) []
       ((setup_params (whisper_full_default_params (stub_engine status segments)) True)
          \<lparr>no_context := True, single_segment := True\<rparr>)
       (Floats [0]) 1 = (status, segments)" for status segments
    by (simp add: stub_engine_def)
  have samples: "Floats [0] \<noteq> Null" "(0::int) < 1"
    by simp_all
  have first: "growth_refused (stub_engine 0 ?long) ?e ?long 0"
    by (simp add: growth_refused_def needed_def text_before_def stub_engine_def stub_env_def
        INT_MAX_def)
  have texts: "text_before (stub_engine 0 ?two) ?two (Suc 0) = replicate 20000 CHR ''a'' @ '' ''"
    by (simp add: text_before_def stub_engine_def)
  have sizes: "needed (stub_engine 0 ?two) ?two 0 = 20002"
    "needed (stub_engine 0 ?two) ?two (Suc 0) = 40003"
    by (simp_all add: needed_def texts) (simp_all add: text_before_def stub_engine_def)
  have second: "growth_refused (stub_engine 0 ?two) (stub_env None 40000) ?two 1"
    by (simp add: growth_refused_def sizes INT_MAX_def) (simp add: stub_engine_def stub_env_def)
  have capacities: "capacity (stub_engine 0 ?long) ?long 0 * 2 = 32768"
    "capacity (stub_engine 0 ?two) ?two (Suc 0) * 2 = 65536"
    by (simp_all add: sizes)
  note file_fails = engine_outcomes [THEN conjunct1, rule_format,
      OF conjI [OF loaded conjI [OF decode inference [of 1 "[]"]]]]
  note file_none = engine_outcomes [THEN conjunct1, rule_format,
      OF conjI [OF loaded conjI [OF decode inference [of 0 "[]"]]]]
  note file_long = engine_outcomes [THEN conjunct1, rule_format,
      OF conjI [OF loaded conjI [OF decode inference [of 0 ?long]]], where k = 0]
  note pcm_fails = engine_outcomes [THEN conjunct2, THEN conjunct1, rule_format,
      OF conjI [OF loaded conjI [OF samples(1) conjI [OF samples(2) inference_pcm [of 1 "[]"]]]],
      where e = "stub_env None 40000"]
  note pcm_two = engine_outcomes [THEN conjunct2, THEN conjunct1, rule_format,
      OF conjI [OF loaded conjI [OF samples(1) conjI [OF samples(2) inference_pcm [of 0 ?two]]]],
      where e = "stub_env None 40000" and k = 1]
  note pass = engine_outcomes [THEN conjunct2, THEN conjunct2, rule_format,
      where e = "stub_env None 7" and E = "stub_engine 0 [''hello'']" and c = "[''hello'']"
        and i = 0 and buffer_size = 4 and buf = "''ab''" and w = "loaded_handle None"
        and n_segments = 1 and tr = "[]"]
  have "\<exists>tr. whisper_wrapper_transcribe_with_lang (stub_engine 1 []) ?e
           (Some (loaded_handle None)) (Some ''a.wav'') True
         = Returns (Owned ''Error: Failed to process audio with whisper'')
             (Some \<lparr>ctx = Some [],
                    result_buffer = Some ''Error: Failed to process audio with whisper''\<rparr>) tr
         \<and> Free Pcm \<in> set tr"
    using file_fails [THEN conjunct1]
    by (simp add: loaded_handle_def)
  moreover have "\<exists>tr. whisper_wrapper_transcribe_with_lang (stub_engine 0 []) ?e
           (Some (loaded_handle None)) (Some ''a.wav'') True
         = Returns (Owned ''No speech detected'')
             (Some \<lparr>ctx = Some [], result_buffer = Some ''No speech detected''\<rparr>) tr
         \<and> Free Pcm \<in> set tr"
    using file_none [THEN conjunct2, THEN conjunct1]
    by (simp add: loaded_handle_def stub_engine_def)
  moreover have "\<exists>before. whisper_wrapper_transcribe_with_lang (stub_engine 0 ?long) ?e
           (Some (loaded_handle None)) (Some ''a.wav'') True
         = Returns (Owned ''Error: Failed to allocate memory for transcription'')
             (Some \<lparr>ctx = Some ?long,
                    result_buffer = Some ''Error: Failed to allocate memory for transcription''\<rparr>)
             (before @ [Realloc Result_buffer 32768 False, Free Result_buffer,
                        Strdup ''Error: Failed to allocate memory for transcription''])
         \<and> Free Pcm \<in> set before"
    using file_long [THEN conjunct2, THEN conjunct2, THEN conjunct1, rule_format,
        OF conjI [OF refl first]]
    by (simp add: loaded_handle_def capacities del: capacity.simps)
  moreover have "\<exists>tr. whisper_wrapper_transcribe_pcm_with_lang (stub_engine 1 []) (stub_env None 40000)
           (Some (loaded_handle None)) (Floats [0]) 1 True
         = Returns (Owned ''Error: Failed to process audio with whisper'')
             (Some \<lparr>ctx = Some [],
                    result_buffer = Some ''Error: Failed to process audio with whisper''\<rparr>) tr"
    using pcm_fails [THEN conjunct1]
    by (simp add: loaded_handle_def)
  moreover have "\<exists>before. whisper_wrapper_transcribe_pcm_with_lang (stub_engine 0 ?two)
           (stub_env None 40000) (Some (loaded_handle None)) (Floats [0]) 1 True
         = Returns (Owned ''Error: Failed to allocate memory for transcription'')
             (Some \<lparr>ctx = Some ?two,
                    result_buffer = Some ''Error: Failed to allocate memory for transcription''\<rparr>)
             (before @ [Realloc Result_buffer 65536 False, Free Result_buffer,
                        Strdup ''Error: Failed to allocate memory for transcription''])"
    using pcm_two [THEN conjunct2, THEN conjunct2, THEN conjunct1, rule_format,
        OF conjI [OF refl second]]
    by (simp add: loaded_handle_def capacities del: capacity.simps)
  moreover have "append_segment (stub_engine 0 [''hello'']) (stub_env None 7) (loaded_handle None)
        [''hello''] 1 0 4 ''ab'' []
      = Inl (Returns (Owned ''Error: Failed to allocate memory for transcription'')
               (Some \<lparr>ctx = Some [],
                      result_buffer = Some ''Error: Failed to allocate memory for transcription''\<rparr>)
               [Whisper_full_get_segment_text 0, Realloc Result_buffer 8 False, Free Result_buffer,
                Strdup ''Error: Failed to allocate memory for transcription''])"
    using pass by (simp add: stub_engine_def stub_env_def loaded_handle_def INT_MAX_def)
  ultimately show ?thesis
    by (intro conjI)
qed

subsection \<open>Segments that fit after one doubling\<close>

text \<open>
  When every segment has at most 16383 characters, one doubling always makes room: a
  pass through the loop body appends the segment (and a space, unless it is the last)
  and leaves the text and its NUL within the buffer.
\<close>

lemma segment_texts_empty: "n \<le> i \<Longrightarrow> segment_texts E c i n = []"
  by (simp add: segment_texts_def)

lemma segment_texts_step:
  assumes "0 \<le> i" and "i < n"
  shows "segment_texts E c i n = whisper_full_get_segment_text E c i # segment_texts E c (i + 1) n"
proof -
  have "nat i < nat n" and "nat (i + 1) = Suc (nat i)" and "int (nat i) = i"
    using assms by simp_all
  then show ?thesis
    by (simp add: segment_texts_def upt_conv_Cons)
qed

lemma join_with_spaces_Cons:
  "join_with_spaces (s # ts) = s @ (if ts = [] then [] else '' '' @ join_with_spaces ts)"
  by (cases ts) simp_all

lemma append_segment_short:
  assumes granted: "alloc_ok e Result_buffer (bs * 2)"
    and short: "int (length (whisper_full_get_segment_text E c i)) + 1 \<le> 16384"
    and fits: "int (length buf) + 1 \<le> bs" and large: "16384 \<le> bs"
    and bound: "2 * (int (length buf) + int (length (whisper_full_get_segment_text E c i)) + 1) + 3
                  \<le> INT_MAX"
  shows "\<exists>bs' tr'. append_segment E e w c n i bs buf tr =
           Inr (bs', buf @ whisper_full_get_segment_text E c i @ (if i < n - 1 then '' '' else []), tr')
         \<and> int (length (buf @ whisper_full_get_segment_text E c i
                           @ (if i < n - 1 then '' '' else []))) + 1 \<le> bs'
         \<and> 16384 \<le> bs'"
  using assms unfolding append_segment_def Let_def strcat_def
  by (cases "int (length buf) + int (length (whisper_full_get_segment_text E c i)) + 2 > bs";
      cases "i < n - 1")
     (simp_all add: INT_MAX_def)

lemma length_join_ge:
  "length s \<le> length (join_with_spaces (s # ts))"
  by (simp add: join_with_spaces_Cons)

lemma concat_segments_short:
  assumes "\<forall>size. alloc_ok e Result_buffer size"
    and "\<forall>k. i \<le> k \<and> k < n \<longrightarrow> length (whisper_full_get_segment_text E c k) \<le> 16383"
    and "0 \<le> i"
    and "int (length buf) + 1 \<le> bs" and "16384 \<le> bs"
    and "2 * int (length (buf @ join_with_spaces (segment_texts E c i n))) + 5 \<le> INT_MAX"
  shows "\<exists>tr'. concat_segments E e w c n i bs buf tr =
           Returns (Owned (buf @ join_with_spaces (segment_texts E c i n)))
             (Some (w\<lparr>result_buffer := Some (buf @ join_with_spaces (segment_texts E c i n))\<rparr>))
             tr'"
  using assms
proof (induction E e w c n i bs buf tr rule: concat_segments.induct)
  case (1 E e w c n i bs buf tr)
  show ?case
  proof (cases "i < n")
    case False
    then show ?thesis
      by (simp add: concat_segments_done segment_texts_empty)
  next
    case True
    let ?seg = "whisper_full_get_segment_text E c i"
    let ?sp = "if i < n - 1 then '' '' else []"
    have texts: "segment_texts E c i n = ?seg # segment_texts E c (i + 1) n"
      using \<open>0 \<le> i\<close> True by (rule segment_texts_step)
    have rest: "segment_texts E c (i + 1) n = [] \<longleftrightarrow> \<not> i < n - 1"
      using \<open>0 \<le> i\<close> True by (auto simp: segment_texts_def)
    have same: "buf @ join_with_spaces (segment_texts E c i n)
                  = (buf @ ?seg @ ?sp) @ join_with_spaces (segment_texts E c (i + 1) n)"
    proof (cases "i < n - 1")
      case True
      with rest show ?thesis by (simp add: texts join_with_spaces_Cons)
    next
      case False
      with rest have "segment_texts E c (i + 1) n = []" by simp
      with False show ?thesis by (simp add: texts)
    qed
    have "length ?seg \<le> 16383"
      using "1.prems"(2) \<open>0 \<le> i\<close> True by simp
    then have short: "int (length ?seg) + 1 \<le> 16384"
      by simp
    have "length (buf @ ?seg) \<le> length (buf @ join_with_spaces (segment_texts E c i n))"
      using length_join_ge [of ?seg "segment_texts E c (i + 1) n"] by (simp add: texts)
    with "1.prems"(6)
    have bound: "2 * (int (length buf) + int (length ?seg) + 1) + 3 \<le> INT_MAX"
      by simp
    from append_segment_short [OF "1.prems"(1) [rule_format] short "1.prems"(4,5) bound,
        of w n tr]
    obtain bs' tr' where
      step: "append_segment E e w c n i bs buf tr = Inr (bs', buf @ ?seg @ ?sp, tr')"
      and fits: "int (length (buf @ ?seg @ ?sp)) + 1 \<le> bs'" and large: "16384 \<le> bs'"
      by blast
    have later: "\<forall>k. i + 1 \<le> k \<and> k < n \<longrightarrow> length (whisper_full_get_segment_text E c k) \<le> 16383"
      using "1.prems"(2) by simp
    have "0 \<le> i + 1"
      using \<open>0 \<le> i\<close> by simp
    have total: "2 * int (length ((buf @ ?seg @ ?sp)
                   @ join_with_spaces (segment_texts E c (i + 1) n))) + 5 \<le> INT_MAX"
      using "1.prems"(6) unfolding same .
    from "1.IH" [OF True step refl refl "1.prems"(1) later \<open>0 \<le> i + 1\<close> fits large total]
    show ?thesis
      unfolding concat_segments_next [OF True step] same .
  qed
qed

text \<open>
  So with short segments, every request for the result buffer granted and a result
  below a gigabyte, both transcription functions return the joined text.
\<close>

lemma collect_segments_short:
  assumes "0 < whisper_full_n_segments E c"
    and "\<forall>size. alloc_ok e Result_buffer size"
    and "\<forall>k. 0 \<le> k \<and> k < whisper_full_n_segments E c \<longrightarrow>
             length (whisper_full_get_segment_text E c k) \<le> 16383"
    and "2 * int (length (join_with_spaces (segment_texts E c 0 (whisper_full_n_segments E c)))) + 5
           \<le> INT_MAX"
  shows "\<exists>tr'. collect_segments E e w c tr =
           Returns (Owned (join_with_spaces (segment_texts E c 0 (whisper_full_n_segments E c))))
             (Some (w\<lparr>result_buffer :=
                        Some (join_with_spaces (segment_texts E c 0 (whisper_full_n_segments E c)))\<rparr>))
             tr'"
proof -
  have "\<exists>tr'. concat_segments E e w c (whisper_full_n_segments E c) 0 (1024 * 16) []
                 (tr @ [Whisper_full_n_segments, Malloc Result_buffer (1024 * 16) True]) =
           Returns (Owned ([] @ join_with_spaces (segment_texts E c 0 (whisper_full_n_segments E c))))
             (Some (w\<lparr>result_buffer :=
                Some ([] @ join_with_spaces (segment_texts E c 0 (whisper_full_n_segments E c)))\<rparr>))
             tr'"
    using assms(2,3) by (rule concat_segments_short) (use assms(4) in simp_all)
  then show ?thesis
    using assms(1,2) by (simp add: collect_segments_def Let_def)
qed

lemma transcribe_pcm_joins_short_segments:
  assumes "ctx w = Some c" and "pcm_data \<noteq> Null" and "0 < n"
    and "whisper_full E c
           ((setup_params (whisper_full_default_params E) l)
              \<lparr>no_context := True, single_segment := True\<rparr>) pcm_data n = (0, c')"
    and "0 < whisper_full_n_segments E c'"
    and "\<forall>size. alloc_ok e Result_buffer size"
    and "\<forall>k. 0 \<le> k \<and> k < whisper_full_n_segments E c' \<longrightarrow>
             length (whisper_full_get_segment_text E c' k) \<le> 16383"
    and "2 * int (length (join_with_spaces (segment_texts E c' 0 (whisper_full_n_segments E c')))) + 5
           \<le> INT_MAX"
  shows "\<exists>tr. whisper_wrapper_transcribe_pcm_with_lang E e (Some w) pcm_data n l =
           Returns (Owned (join_with_spaces (segment_texts E c' 0 (whisper_full_n_segments E c'))))
             (Some (w\<lparr>ctx := Some c',
                      result_buffer :=
                        Some (join_with_spaces
                                (segment_texts E c' 0 (whisper_full_n_segments E c')))\<rparr>))
             tr"
proof -
  from collect_segments_short [OF assms(5-8), of "w\<lparr>result_buffer := None, ctx := Some c'\<rparr>" "[]"]
  obtain tr' where
    "collect_segments E e (w\<lparr>result_buffer := None, ctx := Some c'\<rparr>) c' [] =
       Returns (Owned (join_with_spaces (segment_texts E c' 0 (whisper_full_n_segments E c'))))
         (Some (w\<lparr>result_buffer := None, ctx := Some c'\<rparr>
                 \<lparr>result_buffer :=
                    Some (join_with_spaces (segment_texts E c' 0 (whisper_full_n_segments E c')))\<rparr>))
         tr'"
    by blast
  then show ?thesis
    by (simp add: transcribe_pcm_with_lang_unfold [OF assms(1-4)] Let_def)
qed

lemma transcribe_joins_short_segments:
  assumes "ctx w = Some c"
    and "read_wav_file e path \<lparr>pcm = Null, samples = 0, sample_rate = 0\<rparr> = (True, v, ev)"
    and "whisper_full E c (setup_params (whisper_full_default_params E) l) (pcm v) (samples v)
           = (0, c')"
    and "0 < whisper_full_n_segments E c'"
    and "\<forall>size. alloc_ok e Result_buffer size"
    and "\<forall>k. 0 \<le> k \<and> k < whisper_full_n_segments E c' \<longrightarrow>
             length (whisper_full_get_segment_text E c' k) \<le> 16383"
    and "2 * int (length (join_with_spaces (segment_texts E c' 0 (whisper_full_n_segments E c')))) + 5
           \<le> INT_MAX"
  shows "\<exists>tr. whisper_wrapper_transcribe_with_lang E e (Some w) (Some path) l =
           Returns (Owned (join_with_spaces (segment_texts E c' 0 (whisper_full_n_segments E c'))))
             (Some (w\<lparr>ctx := Some c',
                      result_buffer :=
                        Some (join_with_spaces
                                (segment_texts E c' 0 (whisper_full_n_segments E c')))\<rparr>))
             tr"
proof -
  from collect_segments_short [OF assms(4-7), of "w\<lparr>result_buffer := None, ctx := Some c'\<rparr>" "[]"]
  obtain tr' where
    "collect_segments E e (w\<lparr>result_buffer := None, ctx := Some c'\<rparr>) c' [] =
       Returns (Owned (join_with_spaces (segment_texts E c' 0 (whisper_full_n_segments E c'))))
         (Some (w\<lparr>result_buffer := None, ctx := Some c'\<rparr>
                 \<lparr>result_buffer :=
                    Some (join_with_spaces (segment_texts E c' 0 (whisper_full_n_segments E c')))\<rparr>))
         tr'"
    by blast
  then show ?thesis
    by (simp add: transcribe_with_lang_unfold [OF assms(1-3)] Let_def)
qed

subsection \<open>Segments longer than the buffer\<close>

text \<open>
  C1 does not hold of the code: the buffer is doubled once per segment, not until the
  segment fits. With a single segment of 32768 characters the 16384-byte buffer is
  enlarged to 32768 bytes and \<^verbatim>\<open>strcat\<close> then writes 32769 bytes into it, in both
  transcription functions.
\<close>

theorem long_segment_overflows:
  "whisper_wrapper_transcribe_pcm_with_lang (stub_engine 0 [replicate 32768 CHR ''a''])
     (stub_env None 1000000) (Some (loaded_handle None)) (Floats [0]) 1 True
   = Undefined_behaviour
   \<and> whisper_wrapper_transcribe_with_lang (stub_engine 0 [replicate 32768 CHR ''a''])
     (stub_env (Some stereo16) 1000000) (Some (loaded_handle None)) (Some ''a.wav'') True
   = Undefined_behaviour"
proof
  show "whisper_wrapper_transcribe_pcm_with_lang (stub_engine 0 [replicate 32768 CHR ''a''])
     (stub_env None 1000000) (Some (loaded_handle None)) (Floats [0]) 1 True
   = Undefined_behaviour"
    by (simp add: whisper_wrapper_transcribe_pcm_with_lang_def collect_segments_def
        concat_segments.simps append_segment_def strcat_def INT_MAX_def stub_engine_def stub_env_def
        loaded_handle_def Let_def)
  have "whisper_wrapper_transcribe_with_lang (stub_engine 0 [replicate 32768 CHR ''a''])
     (stub_env (Some stereo16) 1000000) (Some (loaded_handle None)) (Some ''a.wav'') True
   = collect_segments (stub_engine 0 [replicate 32768 CHR ''a'']) (stub_env (Some stereo16) 1000000)
       \<lparr>ctx = Some [replicate 32768 CHR ''a''], result_buffer = None\<rparr>
       [replicate 32768 CHR ''a'']
       [Fopen ''a.wav'' True, Fread 44 True, Malloc Pcm 8 True, Malloc Wav_data 8 True,
        Fread 8 True, Free Wav_data, Fclose, Whisper_full 2, Free Pcm]"
    by (simp add: whisper_wrapper_transcribe_with_lang_def decode_stereo16 stub_engine_def
        loaded_handle_def Let_def)
  also have "\<dots> = Undefined_behaviour"
    by (simp add: collect_segments_def concat_segments.simps append_segment_def strcat_def INT_MAX_def
        stub_engine_def stub_env_def Let_def)
  finally show "whisper_wrapper_transcribe_with_lang (stub_engine 0 [replicate 32768 CHR ''a''])
     (stub_env (Some stereo16) 1000000) (Some (loaded_handle None)) (Some ''a.wav'') True
   = Undefined_behaviour" .
qed

end
